theory Spec2Isabelle
  imports Main "HOL-Library.Sublist" "HOL-Library.List_Lexorder" "HOL-Library.Word"
begin

section \<open>QuickReply: the snippet panel of \<^verbatim>\<open>App\<close>\<close>

text \<open>
  The component \<^verbatim>\<open>App\<close> holds a list of message snippets, keeps it in the
  browser's \<^verbatim>\<open>localStorage\<close>, filters and groups it for display, imports rows of a
  spreadsheet and copies a snippet's text to the clipboard.
\<close>

subsection \<open>Strings\<close>

text \<open>
  A JavaScript string is a sequence of UTF-16 code units, and so it is here: a list of
  16-bit words. Strings are compared code unit by code unit. \<open>js\<close> writes a string of
  ASCII characters, \<open>ch\<close> one of its code units.
\<close>

type_synonym code_unit = "16 word"

type_synonym jstring = "code_unit list"

definition ch :: "char \<Rightarrow> code_unit" where
  "ch c = of_char c"

definition js :: "string \<Rightarrow> jstring" where
  "js s = map ch s"

subsection \<open>Data model (\<^verbatim>\<open>types.ts\<close>)\<close>

text \<open>
  \<^verbatim>\<open>interface MessageSnippet { id; category; title; content }\<close>, all strings. The field
  \<^verbatim>\<open>id\<close> is called \<open>id_of\<close>, since \<open>id\<close> is the identity function of HOL.
\<close>

record MessageSnippet =
  id_of :: jstring
  category :: jstring
  title :: jstring
  content :: jstring

datatype ViewMode = ListView | AddView | EditView

subsection \<open>The platform's \<^verbatim>\<open>String.prototype.toLowerCase\<close>\<close>

text \<open>
  The string is read as a sequence of code points: a leading surrogate followed by a
  trailing one is one code point above \<open>0xFFFF\<close>, every other code unit, a lone
  surrogate too, is the code point of its number.
\<close>

definition is_lead :: "code_unit \<Rightarrow> bool" where
  "is_lead c = (0xD800 \<le> unat c \<and> unat c \<le> 0xDBFF)"

definition is_trail :: "code_unit \<Rightarrow> bool" where
  "is_trail c = (0xDC00 \<le> unat c \<and> unat c \<le> 0xDFFF)"

fun code_points :: "jstring \<Rightarrow> nat list" where
  "code_points [] = []"
| "code_points [c] = [unat c]"
| "code_points (c # d # s) =
     (if is_lead c \<and> is_trail d
      then (0x10000 + (unat c - 0xD800) * 0x400 + (unat d - 0xDC00)) # code_points s
      else unat c # code_points (d # s))"

definition utf16 :: "nat \<Rightarrow> jstring" where
  "utf16 cp =
     (if cp < 0x10000 then [of_nat cp]
      else [of_nat (0xD800 + (cp - 0x10000) div 0x400), of_nat (0xDC00 + (cp - 0x10000) mod 0x400)])"

text \<open>
  The lower-case mapping of the Unicode Character Database (version 14.0), by code
  points. An entry \<open>(lo, hi, step, target)\<close> of \<open>lower_table\<close> maps \<open>lo\<close> to
  \<open>target\<close>, \<open>lo + step\<close> to \<open>target + step\<close> and so on up to \<open>hi\<close>; a code point
  in no entry is its own lower case. \<open>cased_table\<close> holds the ranges of the code points
  that are cased and not case-ignorable, \<open>case_ignorable_table\<close> those of the
  case-ignorable ones.
\<close>

definition lower_table :: "(nat \<times> nat \<times> nat \<times> nat) list" where
  "lower_table =
     [(0x41, 0x5A, 1, 0x61), (0xC0, 0xD6, 1, 0xE0), (0xD8, 0xDE, 1, 0xF8), (0x100, 0x12E, 2, 0x101),
      (0x132, 0x136, 2, 0x133), (0x139, 0x147, 2, 0x13A), (0x14A, 0x176, 2, 0x14B), (0x178, 0x178, 1, 0xFF),
      (0x179, 0x17D, 2, 0x17A), (0x181, 0x181, 1, 0x253), (0x182, 0x184, 2, 0x183), (0x186, 0x186, 1, 0x254),
      (0x187, 0x187, 1, 0x188), (0x189, 0x18A, 1, 0x256), (0x18B, 0x18B, 1, 0x18C), (0x18E, 0x18E, 1, 0x1DD),
      (0x18F, 0x18F, 1, 0x259), (0x190, 0x190, 1, 0x25B), (0x191, 0x191, 1, 0x192), (0x193, 0x193, 1, 0x260),
      (0x194, 0x194, 1, 0x263), (0x196, 0x196, 1, 0x269), (0x197, 0x197, 1, 0x268), (0x198, 0x198, 1, 0x199),
      (0x19C, 0x19C, 1, 0x26F), (0x19D, 0x19D, 1, 0x272), (0x19F, 0x19F, 1, 0x275), (0x1A0, 0x1A4, 2, 0x1A1),
      (0x1A6, 0x1A6, 1, 0x280), (0x1A7, 0x1A7, 1, 0x1A8), (0x1A9, 0x1A9, 1, 0x283), (0x1AC, 0x1AC, 1, 0x1AD),
      (0x1AE, 0x1AE, 1, 0x288), (0x1AF, 0x1AF, 1, 0x1B0), (0x1B1, 0x1B2, 1, 0x28A), (0x1B3, 0x1B5, 2, 0x1B4),
      (0x1B7, 0x1B7, 1, 0x292), (0x1B8, 0x1B8, 1, 0x1B9), (0x1BC, 0x1BC, 1, 0x1BD), (0x1C4, 0x1C4, 1, 0x1C6),
      (0x1C5, 0x1C5, 1, 0x1C6), (0x1C7, 0x1C7, 1, 0x1C9), (0x1C8, 0x1C8, 1, 0x1C9), (0x1CA, 0x1CA, 1, 0x1CC),
      (0x1CB, 0x1DB, 2, 0x1CC), (0x1DE, 0x1EE, 2, 0x1DF), (0x1F1, 0x1F1, 1, 0x1F3), (0x1F2, 0x1F4, 2, 0x1F3),
      (0x1F6, 0x1F6, 1, 0x195), (0x1F7, 0x1F7, 1, 0x1BF), (0x1F8, 0x21E, 2, 0x1F9), (0x220, 0x220, 1, 0x19E),
      (0x222, 0x232, 2, 0x223), (0x23A, 0x23A, 1, 0x2C65), (0x23B, 0x23B, 1, 0x23C), (0x23D, 0x23D, 1, 0x19A),
      (0x23E, 0x23E, 1, 0x2C66), (0x241, 0x241, 1, 0x242), (0x243, 0x243, 1, 0x180), (0x244, 0x244, 1, 0x289),
      (0x245, 0x245, 1, 0x28C), (0x246, 0x24E, 2, 0x247), (0x370, 0x372, 2, 0x371), (0x376, 0x376, 1, 0x377),
      (0x37F, 0x37F, 1, 0x3F3), (0x386, 0x386, 1, 0x3AC), (0x388, 0x38A, 1, 0x3AD), (0x38C, 0x38C, 1, 0x3CC),
      (0x38E, 0x38F, 1, 0x3CD), (0x391, 0x3A1, 1, 0x3B1), (0x3A3, 0x3AB, 1, 0x3C3), (0x3CF, 0x3CF, 1, 0x3D7),
      (0x3D8, 0x3EE, 2, 0x3D9), (0x3F4, 0x3F4, 1, 0x3B8), (0x3F7, 0x3F7, 1, 0x3F8), (0x3F9, 0x3F9, 1, 0x3F2),
      (0x3FA, 0x3FA, 1, 0x3FB), (0x3FD, 0x3FF, 1, 0x37B), (0x400, 0x40F, 1, 0x450), (0x410, 0x42F, 1, 0x430),
      (0x460, 0x480, 2, 0x461), (0x48A, 0x4BE, 2, 0x48B), (0x4C0, 0x4C0, 1, 0x4CF), (0x4C1, 0x4CD, 2, 0x4C2),
      (0x4D0, 0x52E, 2, 0x4D1), (0x531, 0x556, 1, 0x561), (0x10A0, 0x10C5, 1, 0x2D00), (0x10C7, 0x10C7, 1, 0x2D27),
      (0x10CD, 0x10CD, 1, 0x2D2D), (0x13A0, 0x13EF, 1, 0xAB70), (0x13F0, 0x13F5, 1, 0x13F8), (0x1C90, 0x1CBA, 1, 0x10D0),
      (0x1CBD, 0x1CBF, 1, 0x10FD), (0x1E00, 0x1E94, 2, 0x1E01), (0x1E9E, 0x1E9E, 1, 0xDF), (0x1EA0, 0x1EFE, 2, 0x1EA1),
      (0x1F08, 0x1F0F, 1, 0x1F00), (0x1F18, 0x1F1D, 1, 0x1F10), (0x1F28, 0x1F2F, 1, 0x1F20), (0x1F38, 0x1F3F, 1, 0x1F30),
      (0x1F48, 0x1F4D, 1, 0x1F40), (0x1F59, 0x1F5F, 2, 0x1F51), (0x1F68, 0x1F6F, 1, 0x1F60), (0x1F88, 0x1F8F, 1, 0x1F80),
      (0x1F98, 0x1F9F, 1, 0x1F90), (0x1FA8, 0x1FAF, 1, 0x1FA0), (0x1FB8, 0x1FB9, 1, 0x1FB0), (0x1FBA, 0x1FBB, 1, 0x1F70),
      (0x1FBC, 0x1FBC, 1, 0x1FB3), (0x1FC8, 0x1FCB, 1, 0x1F72), (0x1FCC, 0x1FCC, 1, 0x1FC3), (0x1FD8, 0x1FD9, 1, 0x1FD0),
      (0x1FDA, 0x1FDB, 1, 0x1F76), (0x1FE8, 0x1FE9, 1, 0x1FE0), (0x1FEA, 0x1FEB, 1, 0x1F7A), (0x1FEC, 0x1FEC, 1, 0x1FE5),
      (0x1FF8, 0x1FF9, 1, 0x1F78), (0x1FFA, 0x1FFB, 1, 0x1F7C), (0x1FFC, 0x1FFC, 1, 0x1FF3), (0x2126, 0x2126, 1, 0x3C9),
      (0x212A, 0x212A, 1, 0x6B), (0x212B, 0x212B, 1, 0xE5), (0x2132, 0x2132, 1, 0x214E), (0x2160, 0x216F, 1, 0x2170),
      (0x2183, 0x2183, 1, 0x2184), (0x24B6, 0x24CF, 1, 0x24D0), (0x2C00, 0x2C2F, 1, 0x2C30), (0x2C60, 0x2C60, 1, 0x2C61),
      (0x2C62, 0x2C62, 1, 0x26B), (0x2C63, 0x2C63, 1, 0x1D7D), (0x2C64, 0x2C64, 1, 0x27D), (0x2C67, 0x2C6B, 2, 0x2C68),
      (0x2C6D, 0x2C6D, 1, 0x251), (0x2C6E, 0x2C6E, 1, 0x271), (0x2C6F, 0x2C6F, 1, 0x250), (0x2C70, 0x2C70, 1, 0x252),
      (0x2C72, 0x2C72, 1, 0x2C73), (0x2C75, 0x2C75, 1, 0x2C76), (0x2C7E, 0x2C7F, 1, 0x23F), (0x2C80, 0x2CE2, 2, 0x2C81),
      (0x2CEB, 0x2CED, 2, 0x2CEC), (0x2CF2, 0x2CF2, 1, 0x2CF3), (0xA640, 0xA66C, 2, 0xA641), (0xA680, 0xA69A, 2, 0xA681),
      (0xA722, 0xA72E, 2, 0xA723), (0xA732, 0xA76E, 2, 0xA733), (0xA779, 0xA77B, 2, 0xA77A), (0xA77D, 0xA77D, 1, 0x1D79),
      (0xA77E, 0xA786, 2, 0xA77F), (0xA78B, 0xA78B, 1, 0xA78C), (0xA78D, 0xA78D, 1, 0x265), (0xA790, 0xA792, 2, 0xA791),
      (0xA796, 0xA7A8, 2, 0xA797), (0xA7AA, 0xA7AA, 1, 0x266), (0xA7AB, 0xA7AB, 1, 0x25C), (0xA7AC, 0xA7AC, 1, 0x261),
      (0xA7AD, 0xA7AD, 1, 0x26C), (0xA7AE, 0xA7AE, 1, 0x26A), (0xA7B0, 0xA7B0, 1, 0x29E), (0xA7B1, 0xA7B1, 1, 0x287),
      (0xA7B2, 0xA7B2, 1, 0x29D), (0xA7B3, 0xA7B3, 1, 0xAB53), (0xA7B4, 0xA7C2, 2, 0xA7B5), (0xA7C4, 0xA7C4, 1, 0xA794),
      (0xA7C5, 0xA7C5, 1, 0x282), (0xA7C6, 0xA7C6, 1, 0x1D8E), (0xA7C7, 0xA7C9, 2, 0xA7C8), (0xA7D0, 0xA7D0, 1, 0xA7D1),
      (0xA7D6, 0xA7D8, 2, 0xA7D7), (0xA7F5, 0xA7F5, 1, 0xA7F6), (0xFF21, 0xFF3A, 1, 0xFF41), (0x10400, 0x10427, 1, 0x10428),
      (0x104B0, 0x104D3, 1, 0x104D8), (0x10570, 0x1057A, 1, 0x10597), (0x1057C, 0x1058A, 1, 0x105A3), (0x1058C, 0x10592, 1, 0x105B3),
      (0x10594, 0x10595, 1, 0x105BB), (0x10C80, 0x10CB2, 1, 0x10CC0), (0x118A0, 0x118BF, 1, 0x118C0), (0x16E40, 0x16E5F, 1, 0x16E60),
      (0x1E900, 0x1E921, 1, 0x1E922)]"

definition cased_table :: "(nat \<times> nat) list" where
  "cased_table =
     [(0x41, 0x5A), (0x61, 0x7A), (0xAA, 0xAA), (0xB5, 0xB5), (0xBA, 0xBA), (0xC0, 0xD6),
      (0xD8, 0xF6), (0xF8, 0x1BA), (0x1BC, 0x1BF), (0x1C4, 0x293), (0x295, 0x2AF), (0x370, 0x373),
      (0x376, 0x377), (0x37B, 0x37D), (0x37F, 0x37F), (0x386, 0x386), (0x388, 0x38A), (0x38C, 0x38C),
      (0x38E, 0x3A1), (0x3A3, 0x3F5), (0x3F7, 0x481), (0x48A, 0x52F), (0x531, 0x556), (0x560, 0x588),
      (0x10A0, 0x10C5), (0x10C7, 0x10C7), (0x10CD, 0x10CD), (0x10D0, 0x10FA), (0x10FD, 0x10FF), (0x13A0, 0x13F5),
      (0x13F8, 0x13FD), (0x1C80, 0x1C88), (0x1C90, 0x1CBA), (0x1CBD, 0x1CBF), (0x1D00, 0x1D2B), (0x1D6B, 0x1D77),
      (0x1D79, 0x1D9A), (0x1E00, 0x1F15), (0x1F18, 0x1F1D), (0x1F20, 0x1F45), (0x1F48, 0x1F4D), (0x1F50, 0x1F57),
      (0x1F59, 0x1F59), (0x1F5B, 0x1F5B), (0x1F5D, 0x1F5D), (0x1F5F, 0x1F7D), (0x1F80, 0x1FB4), (0x1FB6, 0x1FBC),
      (0x1FBE, 0x1FBE), (0x1FC2, 0x1FC4), (0x1FC6, 0x1FCC), (0x1FD0, 0x1FD3), (0x1FD6, 0x1FDB), (0x1FE0, 0x1FEC),
      (0x1FF2, 0x1FF4), (0x1FF6, 0x1FFC), (0x2102, 0x2102), (0x2107, 0x2107), (0x210A, 0x2113), (0x2115, 0x2115),
      (0x2119, 0x211D), (0x2124, 0x2124), (0x2126, 0x2126), (0x2128, 0x2128), (0x212A, 0x212D), (0x212F, 0x2134),
      (0x2139, 0x2139), (0x213C, 0x213F), (0x2145, 0x2149), (0x214E, 0x214E), (0x2160, 0x217F), (0x2183, 0x2184),
      (0x24B6, 0x24E9), (0x2C00, 0x2C7B), (0x2C7E, 0x2CE4), (0x2CEB, 0x2CEE), (0x2CF2, 0x2CF3), (0x2D00, 0x2D25),
      (0x2D27, 0x2D27), (0x2D2D, 0x2D2D), (0xA640, 0xA66D), (0xA680, 0xA69B), (0xA722, 0xA76F), (0xA771, 0xA787),
      (0xA78B, 0xA78E), (0xA790, 0xA7CA), (0xA7D0, 0xA7D1), (0xA7D3, 0xA7D3), (0xA7D5, 0xA7D9), (0xA7F5, 0xA7F6),
      (0xA7FA, 0xA7FA), (0xAB30, 0xAB5A), (0xAB60, 0xAB68), (0xAB70, 0xABBF), (0xFB00, 0xFB06), (0xFB13, 0xFB17),
      (0xFF21, 0xFF3A), (0xFF41, 0xFF5A), (0x10400, 0x1044F), (0x104B0, 0x104D3), (0x104D8, 0x104FB), (0x10570, 0x1057A),
      (0x1057C, 0x1058A), (0x1058C, 0x10592), (0x10594, 0x10595), (0x10597, 0x105A1), (0x105A3, 0x105B1), (0x105B3, 0x105B9),
      (0x105BB, 0x105BC), (0x10C80, 0x10CB2), (0x10CC0, 0x10CF2), (0x118A0, 0x118DF), (0x16E40, 0x16E7F), (0x1D400, 0x1D454),
      (0x1D456, 0x1D49C), (0x1D49E, 0x1D49F), (0x1D4A2, 0x1D4A2), (0x1D4A5, 0x1D4A6), (0x1D4A9, 0x1D4AC), (0x1D4AE, 0x1D4B9),
      (0x1D4BB, 0x1D4BB), (0x1D4BD, 0x1D4C3), (0x1D4C5, 0x1D505), (0x1D507, 0x1D50A), (0x1D50D, 0x1D514), (0x1D516, 0x1D51C),
      (0x1D51E, 0x1D539), (0x1D53B, 0x1D53E), (0x1D540, 0x1D544), (0x1D546, 0x1D546), (0x1D54A, 0x1D550), (0x1D552, 0x1D6A5),
      (0x1D6A8, 0x1D6C0), (0x1D6C2, 0x1D6DA), (0x1D6DC, 0x1D6FA), (0x1D6FC, 0x1D714), (0x1D716, 0x1D734), (0x1D736, 0x1D74E),
      (0x1D750, 0x1D76E), (0x1D770, 0x1D788), (0x1D78A, 0x1D7A8), (0x1D7AA, 0x1D7C2), (0x1D7C4, 0x1D7CB), (0x1DF00, 0x1DF09),
      (0x1DF0B, 0x1DF1E), (0x1E900, 0x1E943), (0x1F130, 0x1F149), (0x1F150, 0x1F169), (0x1F170, 0x1F189)]"

definition case_ignorable_table :: "(nat \<times> nat) list" where
  "case_ignorable_table =
     [(0x27, 0x27), (0x2E, 0x2E), (0x3A, 0x3A), (0x5E, 0x5E), (0x60, 0x60), (0xA8, 0xA8),
      (0xAD, 0xAD), (0xAF, 0xAF), (0xB4, 0xB4), (0xB7, 0xB8), (0x2B0, 0x36F), (0x374, 0x375),
      (0x37A, 0x37A), (0x384, 0x385), (0x387, 0x387), (0x483, 0x489), (0x559, 0x559), (0x55F, 0x55F),
      (0x591, 0x5BD), (0x5BF, 0x5BF), (0x5C1, 0x5C2), (0x5C4, 0x5C5), (0x5C7, 0x5C7), (0x5F4, 0x5F4),
      (0x600, 0x605), (0x610, 0x61A), (0x61C, 0x61C), (0x640, 0x640), (0x64B, 0x65F), (0x670, 0x670),
      (0x6D6, 0x6DD), (0x6DF, 0x6E8), (0x6EA, 0x6ED), (0x70F, 0x70F), (0x711, 0x711), (0x730, 0x74A),
      (0x7A6, 0x7B0), (0x7EB, 0x7F5), (0x7FA, 0x7FA), (0x7FD, 0x7FD), (0x816, 0x82D), (0x859, 0x85B),
      (0x888, 0x888), (0x890, 0x891), (0x898, 0x89F), (0x8C9, 0x902), (0x93A, 0x93A), (0x93C, 0x93C),
      (0x941, 0x948), (0x94D, 0x94D), (0x951, 0x957), (0x962, 0x963), (0x971, 0x971), (0x981, 0x981),
      (0x9BC, 0x9BC), (0x9C1, 0x9C4), (0x9CD, 0x9CD), (0x9E2, 0x9E3), (0x9FE, 0x9FE), (0xA01, 0xA02),
      (0xA3C, 0xA3C), (0xA41, 0xA42), (0xA47, 0xA48), (0xA4B, 0xA4D), (0xA51, 0xA51), (0xA70, 0xA71),
      (0xA75, 0xA75), (0xA81, 0xA82), (0xABC, 0xABC), (0xAC1, 0xAC5), (0xAC7, 0xAC8), (0xACD, 0xACD),
      (0xAE2, 0xAE3), (0xAFA, 0xAFF), (0xB01, 0xB01), (0xB3C, 0xB3C), (0xB3F, 0xB3F), (0xB41, 0xB44),
      (0xB4D, 0xB4D), (0xB55, 0xB56), (0xB62, 0xB63), (0xB82, 0xB82), (0xBC0, 0xBC0), (0xBCD, 0xBCD),
      (0xC00, 0xC00), (0xC04, 0xC04), (0xC3C, 0xC3C), (0xC3E, 0xC40), (0xC46, 0xC48), (0xC4A, 0xC4D),
      (0xC55, 0xC56), (0xC62, 0xC63), (0xC81, 0xC81), (0xCBC, 0xCBC), (0xCBF, 0xCBF), (0xCC6, 0xCC6),
      (0xCCC, 0xCCD), (0xCE2, 0xCE3), (0xD00, 0xD01), (0xD3B, 0xD3C), (0xD41, 0xD44), (0xD4D, 0xD4D),
      (0xD62, 0xD63), (0xD81, 0xD81), (0xDCA, 0xDCA), (0xDD2, 0xDD4), (0xDD6, 0xDD6), (0xE31, 0xE31),
      (0xE34, 0xE3A), (0xE46, 0xE4E), (0xEB1, 0xEB1), (0xEB4, 0xEBC), (0xEC6, 0xEC6), (0xEC8, 0xECD),
      (0xF18, 0xF19), (0xF35, 0xF35), (0xF37, 0xF37), (0xF39, 0xF39), (0xF71, 0xF7E), (0xF80, 0xF84),
      (0xF86, 0xF87), (0xF8D, 0xF97), (0xF99, 0xFBC), (0xFC6, 0xFC6), (0x102D, 0x1030), (0x1032, 0x1037),
      (0x1039, 0x103A), (0x103D, 0x103E), (0x1058, 0x1059), (0x105E, 0x1060), (0x1071, 0x1074), (0x1082, 0x1082),
      (0x1085, 0x1086), (0x108D, 0x108D), (0x109D, 0x109D), (0x10FC, 0x10FC), (0x135D, 0x135F), (0x1712, 0x1714),
      (0x1732, 0x1733), (0x1752, 0x1753), (0x1772, 0x1773), (0x17B4, 0x17B5), (0x17B7, 0x17BD), (0x17C6, 0x17C6),
      (0x17C9, 0x17D3), (0x17D7, 0x17D7), (0x17DD, 0x17DD), (0x180B, 0x180F), (0x1843, 0x1843), (0x1885, 0x1886),
      (0x18A9, 0x18A9), (0x1920, 0x1922), (0x1927, 0x1928), (0x1932, 0x1932), (0x1939, 0x193B), (0x1A17, 0x1A18),
      (0x1A1B, 0x1A1B), (0x1A56, 0x1A56), (0x1A58, 0x1A5E), (0x1A60, 0x1A60), (0x1A62, 0x1A62), (0x1A65, 0x1A6C),
      (0x1A73, 0x1A7C), (0x1A7F, 0x1A7F), (0x1AA7, 0x1AA7), (0x1AB0, 0x1ACE), (0x1B00, 0x1B03), (0x1B34, 0x1B34),
      (0x1B36, 0x1B3A), (0x1B3C, 0x1B3C), (0x1B42, 0x1B42), (0x1B6B, 0x1B73), (0x1B80, 0x1B81), (0x1BA2, 0x1BA5),
      (0x1BA8, 0x1BA9), (0x1BAB, 0x1BAD), (0x1BE6, 0x1BE6), (0x1BE8, 0x1BE9), (0x1BED, 0x1BED), (0x1BEF, 0x1BF1),
      (0x1C2C, 0x1C33), (0x1C36, 0x1C37), (0x1C78, 0x1C7D), (0x1CD0, 0x1CD2), (0x1CD4, 0x1CE0), (0x1CE2, 0x1CE8),
      (0x1CED, 0x1CED), (0x1CF4, 0x1CF4), (0x1CF8, 0x1CF9), (0x1D2C, 0x1D6A), (0x1D78, 0x1D78), (0x1D9B, 0x1DFF),
      (0x1FBD, 0x1FBD), (0x1FBF, 0x1FC1), (0x1FCD, 0x1FCF), (0x1FDD, 0x1FDF), (0x1FED, 0x1FEF), (0x1FFD, 0x1FFE),
      (0x200B, 0x200F), (0x2018, 0x2019), (0x2024, 0x2024), (0x2027, 0x2027), (0x202A, 0x202E), (0x2060, 0x2064),
      (0x2066, 0x206F), (0x2071, 0x2071), (0x207F, 0x207F), (0x2090, 0x209C), (0x20D0, 0x20F0), (0x2C7C, 0x2C7D),
      (0x2CEF, 0x2CF1), (0x2D6F, 0x2D6F), (0x2D7F, 0x2D7F), (0x2DE0, 0x2DFF), (0x2E2F, 0x2E2F), (0x3005, 0x3005),
      (0x302A, 0x302D), (0x3031, 0x3035), (0x303B, 0x303B), (0x3099, 0x309E), (0x30FC, 0x30FE), (0xA015, 0xA015),
      (0xA4F8, 0xA4FD), (0xA60C, 0xA60C), (0xA66F, 0xA672), (0xA674, 0xA67D), (0xA67F, 0xA67F), (0xA69C, 0xA69F),
      (0xA6F0, 0xA6F1), (0xA700, 0xA721), (0xA770, 0xA770), (0xA788, 0xA78A), (0xA7F2, 0xA7F4), (0xA7F8, 0xA7F9),
      (0xA802, 0xA802), (0xA806, 0xA806), (0xA80B, 0xA80B), (0xA825, 0xA826), (0xA82C, 0xA82C), (0xA8C4, 0xA8C5),
      (0xA8E0, 0xA8F1), (0xA8FF, 0xA8FF), (0xA926, 0xA92D), (0xA947, 0xA951), (0xA980, 0xA982), (0xA9B3, 0xA9B3),
      (0xA9B6, 0xA9B9), (0xA9BC, 0xA9BD), (0xA9CF, 0xA9CF), (0xA9E5, 0xA9E6), (0xAA29, 0xAA2E), (0xAA31, 0xAA32),
      (0xAA35, 0xAA36), (0xAA43, 0xAA43), (0xAA4C, 0xAA4C), (0xAA70, 0xAA70), (0xAA7C, 0xAA7C), (0xAAB0, 0xAAB0),
      (0xAAB2, 0xAAB4), (0xAAB7, 0xAAB8), (0xAABE, 0xAABF), (0xAAC1, 0xAAC1), (0xAADD, 0xAADD), (0xAAEC, 0xAAED),
      (0xAAF3, 0xAAF4), (0xAAF6, 0xAAF6), (0xAB5B, 0xAB5F), (0xAB69, 0xAB6B), (0xABE5, 0xABE5), (0xABE8, 0xABE8),
      (0xABED, 0xABED), (0xFB1E, 0xFB1E), (0xFBB2, 0xFBC2), (0xFE00, 0xFE0F), (0xFE13, 0xFE13), (0xFE20, 0xFE2F),
      (0xFE52, 0xFE52), (0xFE55, 0xFE55), (0xFEFF, 0xFEFF), (0xFF07, 0xFF07), (0xFF0E, 0xFF0E), (0xFF1A, 0xFF1A),
      (0xFF3E, 0xFF3E), (0xFF40, 0xFF40), (0xFF70, 0xFF70), (0xFF9E, 0xFF9F), (0xFFE3, 0xFFE3), (0xFFF9, 0xFFFB),
      (0x101FD, 0x101FD), (0x102E0, 0x102E0), (0x10376, 0x1037A), (0x10780, 0x10785), (0x10787, 0x107B0), (0x107B2, 0x107BA),
      (0x10A01, 0x10A03), (0x10A05, 0x10A06), (0x10A0C, 0x10A0F), (0x10A38, 0x10A3A), (0x10A3F, 0x10A3F), (0x10AE5, 0x10AE6),
      (0x10D24, 0x10D27), (0x10EAB, 0x10EAC), (0x10F46, 0x10F50), (0x10F82, 0x10F85), (0x11001, 0x11001), (0x11038, 0x11046),
      (0x11070, 0x11070), (0x11073, 0x11074), (0x1107F, 0x11081), (0x110B3, 0x110B6), (0x110B9, 0x110BA), (0x110BD, 0x110BD),
      (0x110C2, 0x110C2), (0x110CD, 0x110CD), (0x11100, 0x11102), (0x11127, 0x1112B), (0x1112D, 0x11134), (0x11173, 0x11173),
      (0x11180, 0x11181), (0x111B6, 0x111BE), (0x111C9, 0x111CC), (0x111CF, 0x111CF), (0x1122F, 0x11231), (0x11234, 0x11234),
      (0x11236, 0x11237), (0x1123E, 0x1123E), (0x112DF, 0x112DF), (0x112E3, 0x112EA), (0x11300, 0x11301), (0x1133B, 0x1133C),
      (0x11340, 0x11340), (0x11366, 0x1136C), (0x11370, 0x11374), (0x11438, 0x1143F), (0x11442, 0x11444), (0x11446, 0x11446),
      (0x1145E, 0x1145E), (0x114B3, 0x114B8), (0x114BA, 0x114BA), (0x114BF, 0x114C0), (0x114C2, 0x114C3), (0x115B2, 0x115B5),
      (0x115BC, 0x115BD), (0x115BF, 0x115C0), (0x115DC, 0x115DD), (0x11633, 0x1163A), (0x1163D, 0x1163D), (0x1163F, 0x11640),
      (0x116AB, 0x116AB), (0x116AD, 0x116AD), (0x116B0, 0x116B5), (0x116B7, 0x116B7), (0x1171D, 0x1171F), (0x11722, 0x11725),
      (0x11727, 0x1172B), (0x1182F, 0x11837), (0x11839, 0x1183A), (0x1193B, 0x1193C), (0x1193E, 0x1193E), (0x11943, 0x11943),
      (0x119D4, 0x119D7), (0x119DA, 0x119DB), (0x119E0, 0x119E0), (0x11A01, 0x11A0A), (0x11A33, 0x11A38), (0x11A3B, 0x11A3E),
      (0x11A47, 0x11A47), (0x11A51, 0x11A56), (0x11A59, 0x11A5B), (0x11A8A, 0x11A96), (0x11A98, 0x11A99), (0x11C30, 0x11C36),
      (0x11C38, 0x11C3D), (0x11C3F, 0x11C3F), (0x11C92, 0x11CA7), (0x11CAA, 0x11CB0), (0x11CB2, 0x11CB3), (0x11CB5, 0x11CB6),
      (0x11D31, 0x11D36), (0x11D3A, 0x11D3A), (0x11D3C, 0x11D3D), (0x11D3F, 0x11D45), (0x11D47, 0x11D47), (0x11D90, 0x11D91),
      (0x11D95, 0x11D95), (0x11D97, 0x11D97), (0x11EF3, 0x11EF4), (0x13430, 0x13438), (0x16AF0, 0x16AF4), (0x16B30, 0x16B36),
      (0x16B40, 0x16B43), (0x16F4F, 0x16F4F), (0x16F8F, 0x16F9F), (0x16FE0, 0x16FE1), (0x16FE3, 0x16FE4), (0x1AFF0, 0x1AFF3),
      (0x1AFF5, 0x1AFFB), (0x1AFFD, 0x1AFFE), (0x1BC9D, 0x1BC9E), (0x1BCA0, 0x1BCA3), (0x1CF00, 0x1CF2D), (0x1CF30, 0x1CF46),
      (0x1D167, 0x1D169), (0x1D173, 0x1D182), (0x1D185, 0x1D18B), (0x1D1AA, 0x1D1AD), (0x1D242, 0x1D244), (0x1DA00, 0x1DA36),
      (0x1DA3B, 0x1DA6C), (0x1DA75, 0x1DA75), (0x1DA84, 0x1DA84), (0x1DA9B, 0x1DA9F), (0x1DAA1, 0x1DAAF), (0x1E000, 0x1E006),
      (0x1E008, 0x1E018), (0x1E01B, 0x1E021), (0x1E023, 0x1E024), (0x1E026, 0x1E02A), (0x1E130, 0x1E13D), (0x1E2AE, 0x1E2AE),
      (0x1E2EC, 0x1E2EF), (0x1E8D0, 0x1E8D6), (0x1E944, 0x1E94B), (0x1F3FB, 0x1F3FF), (0xE0001, 0xE0001), (0xE0020, 0xE007F),
      (0xE0100, 0xE01EF)]"

definition in_ranges :: "(nat \<times> nat) list \<Rightarrow> nat \<Rightarrow> bool" where
  "in_ranges table cp = list_ex (\<lambda>(lo, hi). lo \<le> cp \<and> cp \<le> hi) table"

definition simple_lower :: "nat \<Rightarrow> nat" where
  "simple_lower cp =
     (case find (\<lambda>(lo, hi, step, target). lo \<le> cp \<and> cp \<le> hi \<and> (cp - lo) mod step = 0)
             lower_table of
        None \<Rightarrow> cp
      | Some (lo, hi, step, target) \<Rightarrow> target + (cp - lo))"

text \<open>
  The two mappings that depend on more than the code point. The capital sigma \<open>0x3A3\<close>
  becomes the final sigma \<open>0x3C2\<close> when a cased letter stands before it, case-ignorable
  code points apart, and no cased letter stands after it in the same way; otherwise it
  becomes \<open>0x3C3\<close>. The capital I with a dot \<open>0x130\<close> becomes two code points.
  \<open>before\<close> holds the code points before the current one, the nearest first.
\<close>

definition final_sigma :: "nat list \<Rightarrow> nat list \<Rightarrow> bool" where
  "final_sigma before after =
     ((case dropWhile (in_ranges case_ignorable_table) before of
         [] \<Rightarrow> False
       | cp # _ \<Rightarrow> in_ranges cased_table cp) \<and>
      (case dropWhile (in_ranges case_ignorable_table) after of
         [] \<Rightarrow> True
       | cp # _ \<Rightarrow> \<not> in_ranges cased_table cp))"

fun lower_points :: "nat list \<Rightarrow> nat list \<Rightarrow> nat list" where
  "lower_points before [] = []"
| "lower_points before (cp # after) =
     (if cp = 0x3A3 then [if final_sigma before after then 0x3C2 else 0x3C3]
      else if cp = 0x130 then [0x69, 0x307]
      else [simple_lower cp]) @ lower_points (cp # before) after"

definition toLowerCase :: "jstring \<Rightarrow> jstring" where
  "toLowerCase s = concat (map utf16 (lower_points [] (code_points s)))"

text \<open>
  \<^verbatim>\<open>s.includes(t)\<close>: does \<open>t\<close> start at some position of \<open>s\<close>? The positions are
  tried from the left; the empty string starts everywhere, also in the empty string.
  (The word \<open>includes\<close> is a keyword of Isabelle, hence the longer name.)
\<close>

fun str_includes :: "jstring \<Rightarrow> jstring \<Rightarrow> bool" where
  "str_includes [] t = (t = [])"
| "str_includes (c # s) t = (prefix t (c # s) \<or> str_includes s t)"

subsection \<open>Query layer: \<^verbatim>\<open>filteredMessages\<close>\<close>

text \<open>
  \<^verbatim>\<open>
  const term = searchTerm.toLowerCase();
  return messages.filter(m =>
    m.title.toLowerCase().includes(term) ||
    m.category.toLowerCase().includes(term) ||
    m.content.toLowerCase().includes(term));
  \<close>
\<close>

definition matches :: "jstring \<Rightarrow> MessageSnippet \<Rightarrow> bool" where
  "matches term m =
     (str_includes (toLowerCase (title m)) term \<or>
      str_includes (toLowerCase (category m)) term \<or>
      str_includes (toLowerCase (content m)) term)"

definition filteredMessages :: "MessageSnippet list \<Rightarrow> jstring \<Rightarrow> MessageSnippet list" where
  "filteredMessages messages searchTerm =
     (let term = toLowerCase searchTerm in filter (matches term) messages)"

subsection \<open>The specification's reading of the filter\<close>

text \<open>
  As the specification words it, for text of the ASCII range: \<open>t\<close> is a case-insensitive
  substring of \<open>s\<close> when \<open>t\<close> stands at some position of \<open>s\<close> up to the case of the
  letters \<^verbatim>\<open>A\<close> to \<^verbatim>\<open>Z\<close>, a capital letter and its small letter being 32 apart.
\<close>

definition is_ascii :: "jstring \<Rightarrow> bool" where
  "is_ascii s = list_all (\<lambda>c. unat c < 128) s"

definition is_capital :: "code_unit \<Rightarrow> bool" where
  "is_capital c = (65 \<le> unat c \<and> unat c \<le> 90)"

definition same_letter :: "code_unit \<Rightarrow> code_unit \<Rightarrow> bool" where
  "same_letter a b =
     (a = b \<or> (is_capital a \<and> unat b = unat a + 32) \<or> (is_capital b \<and> unat a = unat b + 32))"

fun ci_prefix :: "jstring \<Rightarrow> jstring \<Rightarrow> bool" where
  "ci_prefix [] s = True"
| "ci_prefix (a # t) [] = False"
| "ci_prefix (a # t) (b # s) = (same_letter a b \<and> ci_prefix t s)"

fun ci_substring :: "jstring \<Rightarrow> jstring \<Rightarrow> bool" where
  "ci_substring t [] = (t = [])"
| "ci_substring t (b # s) = (ci_prefix t (b # s) \<or> ci_substring t s)"

definition spec_matches :: "jstring \<Rightarrow> MessageSnippet \<Rightarrow> bool" where
  "spec_matches t m =
     (ci_substring t (title m) \<or> ci_substring t (category m) \<or> ci_substring t (content m))"

text \<open>What lowering does to a code unit of the ASCII range.\<close>

definition ascii_lower :: "code_unit \<Rightarrow> code_unit" where
  "ascii_lower c = (if 65 \<le> unat c \<and> unat c \<le> 90 then c + 32 else c)"

subsection \<open>Query layer: \<^verbatim>\<open>groupedMessages\<close>\<close>

text \<open>
  What the code can throw. A \<^verbatim>\<open>TypeError\<close> comes from calling something that is not a
  function, a \<^verbatim>\<open>SyntaxError\<close> from \<^verbatim>\<open>JSON.parse\<close>.
\<close>

datatype exception = TypeError | SyntaxError

text \<open>
  \<^verbatim>\<open>const groups: Record<string, MessageSnippet[]> = {}\<close> is a plain object. Its own
  properties are kept in the order of their creation, as an association list. A read
  \<^verbatim>\<open>groups[k]\<close> of a name that is not an own property goes on to \<^verbatim>\<open>Object.prototype\<close>,
  whose properties (functions, and the accessor \<^verbatim>\<open>__proto__\<close> that yields the
  prototype object) are all truthy and none of them an array.
\<close>

type_synonym groups = "(jstring \<times> MessageSnippet list) list"

definition Object_prototype_names :: "jstring list" where
  "Object_prototype_names =
     map js
     [''constructor'', ''__defineGetter__'', ''__defineSetter__'', ''hasOwnProperty'',
      ''__lookupGetter__'', ''__lookupSetter__'', ''isPrototypeOf'', ''propertyIsEnumerable'',
      ''toString'', ''valueOf'', ''__proto__'', ''toLocaleString'']"

datatype property = Own "MessageSnippet list" | Inherited | Undefined

definition get_property :: "groups \<Rightarrow> jstring \<Rightarrow> property" where
  "get_property groups k =
     (case map_of groups k of
        Some items \<Rightarrow> Own items
      | None \<Rightarrow> if k \<in> set Object_prototype_names then Inherited else Undefined)"

text \<open>Assignment \<^verbatim>\<open>groups[k] = v\<close> to an own property, or creating it as the last one.\<close>

fun set_property :: "groups \<Rightarrow> jstring \<Rightarrow> MessageSnippet list \<Rightarrow> groups" where
  "set_property [] k v = [(k, v)]"
| "set_property ((k', v') # groups) k v =
     (if k' = k then (k, v) # groups else (k', v') # set_property groups k v)"

text \<open>
  The body of the \<^verbatim>\<open>forEach\<close>:
  \<^verbatim>\<open>
  if (!groups[m.category]) groups[m.category] = [];
  groups[m.category].push(m);
  \<close>
  An array is truthy even when empty, and so is everything inherited; only a name that is
  nowhere gets the empty array. \<^verbatim>\<open>push\<close> on an array appends in place; what is inherited
  has no \<^verbatim>\<open>push\<close>, and calling \<^verbatim>\<open>undefined\<close> throws.
\<close>

definition group_one :: "groups \<Rightarrow> MessageSnippet \<Rightarrow> exception + groups" where
  "group_one groups m =
     (let k = category m;
          groups' = (case get_property groups k of
                       Undefined \<Rightarrow> set_property groups k []
                     | _ \<Rightarrow> groups)
      in case get_property groups' k of
           Own items \<Rightarrow> Inr (set_property groups' k (items @ [m]))
         | _ \<Rightarrow> Inl TypeError)"

fun forEach :: "MessageSnippet list \<Rightarrow> groups \<Rightarrow> exception + groups" where
  "forEach [] groups = Inr groups"
| "forEach (m # ms) groups =
     (case group_one groups m of Inl e \<Rightarrow> Inl e | Inr groups' \<Rightarrow> forEach ms groups')"

definition groupedMessages :: "MessageSnippet list \<Rightarrow> exception + groups" where
  "groupedMessages filtered = forEach filtered []"

subsection \<open>Display order: \<^verbatim>\<open>Object.entries(groupedMessages).sort()\<close>\<close>

text \<open>
  \<^verbatim>\<open>Object.entries\<close> lists the own properties: first the names that are array indices
  (the decimal numerals of 0 to \<open>2\<^sup>3\<^sup>2 - 2\<close>, without leading zero) in ascending numeric
  order, then all other names in the order of their creation.
\<close>

definition is_digit :: "code_unit \<Rightarrow> bool" where
  "is_digit c = (48 \<le> unat c \<and> unat c \<le> 57)"

definition decimal :: "jstring \<Rightarrow> nat" where
  "decimal s = foldl (\<lambda>n c. 10 * n + (unat c - 48)) 0 s"

definition is_array_index :: "jstring \<Rightarrow> bool" where
  "is_array_index k =
     (k \<noteq> [] \<and> list_all is_digit k \<and> (k = js ''0'' \<or> hd k \<noteq> ch CHR ''0'') \<and>
      decimal k \<le> 4294967294)"

definition Object_entries :: "groups \<Rightarrow> (jstring \<times> MessageSnippet list) list" where
  "Object_entries groups =
     sort_key (\<lambda>e. decimal (fst e)) (filter (\<lambda>e. is_array_index (fst e)) groups) @
     filter (\<lambda>e. \<not> is_array_index (fst e)) groups"

text \<open>
  \<^verbatim>\<open>sort()\<close> without a comparison function orders the elements by their string forms,
  compared code unit by code unit, and is stable. An entry is the two-element array
  \<^verbatim>\<open>[category, items]\<close>; the string form of an array joins the string forms of its
  elements with commas, and the string form of a snippet object is
  \<^verbatim>\<open>[object Object]\<close>.
\<close>

fun join :: "jstring \<Rightarrow> jstring list \<Rightarrow> jstring" where
  "join sep [] = []"
| "join sep [x] = x"
| "join sep (x # y # ys) = x @ sep @ join sep (y # ys)"

definition entry_toString :: "jstring \<times> MessageSnippet list \<Rightarrow> jstring" where
  "entry_toString e =
     join (js '','') [fst e, join (js '','') (map (\<lambda>m. js ''[object Object]'') (snd e))]"

definition sort_by_string ::
  "(jstring \<times> MessageSnippet list) list \<Rightarrow> (jstring \<times> MessageSnippet list) list" where
  "sort_by_string es = sort_key entry_toString es"

text \<open>
  The categories in the order in which the list view shows their groups, for a collection
  and a search term.
\<close>

definition displayed ::
  "MessageSnippet list \<Rightarrow> jstring \<Rightarrow> exception + (jstring \<times> MessageSnippet list) list" where
  "displayed messages searchTerm =
     (case groupedMessages (filteredMessages messages searchTerm) of
        Inl e \<Rightarrow> Inl e
      | Inr groups \<Rightarrow> Inr (sort_by_string (Object_entries groups)))"

subsection \<open>The platform's \<^verbatim>\<open>JSON.stringify\<close>\<close>

text \<open>
  \<^verbatim>\<open>JSON.stringify(messages)\<close> of an array of snippet objects: no white space, the
  properties of each object in the order of their creation (\<^verbatim>\<open>id\<close>, \<^verbatim>\<open>category\<close>,
  \<^verbatim>\<open>title\<close>, \<^verbatim>\<open>content\<close>, as both object literals of \<^verbatim>\<open>App\<close> write them). A string is
  quoted; the quotation mark and the backslash get a backslash, the control characters
  below 0x20 their short escape or \<^verbatim>\<open>\uXXXX\<close> with lower-case digits, a surrogate that
  is not part of a pair \<^verbatim>\<open>\uXXXX\<close> as well, and every other code unit stands for itself.
\<close>

definition dquote :: code_unit where
  "dquote = 0x22"

definition backslash :: code_unit where
  "backslash = 0x5C"

definition hex_digit :: "nat \<Rightarrow> code_unit" where
  "hex_digit n = (if n < 10 then of_nat (48 + n) else of_nat (87 + n))"

definition unicode_escape :: "code_unit \<Rightarrow> jstring" where
  "unicode_escape c =
     (let n = unat c in
      [backslash, ch CHR ''u'', hex_digit (n div 4096 mod 16), hex_digit (n div 256 mod 16),
       hex_digit (n div 16 mod 16), hex_digit (n mod 16)])"

definition escape_unit :: "code_unit \<Rightarrow> jstring" where
  "escape_unit c =
     (let n = unat c in
      if c = dquote then [backslash, dquote]
      else if c = backslash then [backslash, backslash]
      else if n = 8 then [backslash, ch CHR ''b'']
      else if n = 9 then [backslash, ch CHR ''t'']
      else if n = 10 then [backslash, ch CHR ''n'']
      else if n = 12 then [backslash, ch CHR ''f'']
      else if n = 13 then [backslash, ch CHR ''r'']
      else if n < 32 then unicode_escape c
      else [c])"

fun escape :: "jstring \<Rightarrow> jstring" where
  "escape [] = []"
| "escape [c] = (if is_lead c \<or> is_trail c then unicode_escape c else escape_unit c)"
| "escape (c # d # s) =
     (if is_lead c \<and> is_trail d then c # d # escape s
      else if is_lead c \<or> is_trail c then unicode_escape c @ escape (d # s)
      else escape_unit c @ escape (d # s))"

definition quote :: "jstring \<Rightarrow> jstring" where
  "quote s = dquote # escape s @ [dquote]"

definition stringify_snippet :: "MessageSnippet \<Rightarrow> jstring" where
  "stringify_snippet m =
     js ''{'' @ quote (js ''id'') @ js '':'' @ quote (id_of m) @ js '','' @
     quote (js ''category'') @ js '':'' @ quote (category m) @ js '','' @
     quote (js ''title'') @ js '':'' @ quote (title m) @ js '','' @
     quote (js ''content'') @ js '':'' @ quote (content m) @ js ''}''"

definition JSON_stringify :: "MessageSnippet list \<Rightarrow> jstring" where
  "JSON_stringify ms = js ''['' @ join (js '','') (map stringify_snippet ms) @ js '']''"

subsection \<open>The platform's \<^verbatim>\<open>JSON.parse\<close>\<close>

text \<open>
  A JSON value as \<^verbatim>\<open>JSON.parse\<close> reads it. A number is kept as its text; an object
  keeps its members as written.
\<close>

datatype json =
    JNull
  | JBool bool
  | JNumber jstring
  | JString jstring
  | JArray "json list"
  | JObject "(jstring \<times> json) list"

definition is_json_ws :: "code_unit \<Rightarrow> bool" where
  "is_json_ws c = (c = 0x20 \<or> c = 0x09 \<or> c = 0x0A \<or> c = 0x0D)"

definition skip_ws :: "jstring \<Rightarrow> jstring" where
  "skip_ws s = dropWhile is_json_ws s"

definition hex_value :: "code_unit \<Rightarrow> nat option" where
  "hex_value c =
     (let n = unat c in
      if 48 \<le> n \<and> n \<le> 57 then Some (n - 48)
      else if 97 \<le> n \<and> n \<le> 102 then Some (n - 87)
      else if 65 \<le> n \<and> n \<le> 70 then Some (n - 55)
      else None)"

text \<open>The escapes of one character after the backslash.\<close>

definition unescape :: "code_unit \<Rightarrow> code_unit option" where
  "unescape c =
     (if c = dquote then Some dquote
      else if c = backslash then Some backslash
      else if c = ch CHR ''/'' then Some (ch CHR ''/'')
      else if c = ch CHR ''b'' then Some 8
      else if c = ch CHR ''f'' then Some 12
      else if c = ch CHR ''n'' then Some 10
      else if c = ch CHR ''r'' then Some 13
      else if c = ch CHR ''t'' then Some 9
      else None)"

text \<open>
  The characters of a string after its opening quotation mark, up to the closing one;
  the result is the string and the text after it. A control character below 0x20 must
  be escaped.
\<close>

fun parse_chars :: "jstring \<Rightarrow> (jstring \<times> jstring) option" where
  "parse_chars [] = None"
| "parse_chars (c # s) =
     (if c = dquote then Some ([], s)
      else if c = backslash then
        (case s of
           [] \<Rightarrow> None
         | e # s' \<Rightarrow>
             if e = ch CHR ''u'' then
               (case s' of
                  h1 # h2 # h3 # h4 # r \<Rightarrow>
                    (case (hex_value h1, hex_value h2, hex_value h3, hex_value h4) of
                       (Some n1, Some n2, Some n3, Some n4) \<Rightarrow>
                         (case parse_chars r of
                            None \<Rightarrow> None
                          | Some (us, r') \<Rightarrow>
                              Some (of_nat (((n1 * 16 + n2) * 16 + n3) * 16 + n4) # us, r'))
                     | _ \<Rightarrow> None)
                | _ \<Rightarrow> None)
             else
               (case unescape e of
                  None \<Rightarrow> None
                | Some u \<Rightarrow>
                    (case parse_chars s' of
                       None \<Rightarrow> None
                     | Some (us, r') \<Rightarrow> Some (u # us, r'))))
      else if unat c < 32 then None
      else
        (case parse_chars s of
           None \<Rightarrow> None
         | Some (us, r') \<Rightarrow> Some (c # us, r')))"

text \<open>
  A number: an optional minus, an integer part without leading zero, an optional
  fraction and an optional exponent. The result is the text of the number.
\<close>

definition digits :: "jstring \<Rightarrow> jstring \<times> jstring" where
  "digits s = (takeWhile is_digit s, dropWhile is_digit s)"

definition parse_exponent :: "jstring \<Rightarrow> (jstring \<times> jstring) option" where
  "parse_exponent s =
     (case s of
        [] \<Rightarrow> Some ([], s)
      | e # r \<Rightarrow>
          if e = ch CHR ''e'' \<or> e = ch CHR ''E'' then
            (let (sign, r') = (case r of
                                 [] \<Rightarrow> ([], r)
                               | c # r'' \<Rightarrow> if c = ch CHR ''+'' \<or> c = ch CHR ''-'' then ([c], r'') else ([], r));
                 (ds, rest) = digits r'
             in if ds = [] then None else Some (e # sign @ ds, rest))
          else Some ([], s))"

definition parse_fraction :: "jstring \<Rightarrow> (jstring \<times> jstring) option" where
  "parse_fraction s =
     (case s of
        [] \<Rightarrow> Some ([], s)
      | p # r \<Rightarrow>
          if p = ch CHR ''.'' then
            (let (ds, rest) = digits r
             in if ds = [] then None else Some (p # ds, rest))
          else Some ([], s))"

definition parse_integer :: "jstring \<Rightarrow> (jstring \<times> jstring) option" where
  "parse_integer s =
     (case s of
        [] \<Rightarrow> None
      | d # r \<Rightarrow>
          if d = ch CHR ''0'' then Some ([d], r)
          else if is_digit d then (let (ds, rest) = digits r in Some (d # ds, rest))
          else None)"

definition parse_number :: "jstring \<Rightarrow> (jstring \<times> jstring) option" where
  "parse_number s =
     (let (sign, s1) = (case s of
                          [] \<Rightarrow> ([], s)
                        | c # r \<Rightarrow> if c = ch CHR ''-'' then ([c], r) else ([], s))
      in case parse_integer s1 of
           None \<Rightarrow> None
         | Some (i, s2) \<Rightarrow>
             (case parse_fraction s2 of
                None \<Rightarrow> None
              | Some (f, s3) \<Rightarrow>
                  (case parse_exponent s3 of
                     None \<Rightarrow> None
                   | Some (e, s4) \<Rightarrow> Some (sign @ i @ f @ e, s4))))"

text \<open>One of the words \<^verbatim>\<open>true\<close>, \<^verbatim>\<open>false\<close>, \<^verbatim>\<open>null\<close> at the head of the text.\<close>

definition parse_word :: "jstring \<Rightarrow> json \<Rightarrow> jstring \<Rightarrow> (json \<times> jstring) option" where
  "parse_word w v s = (if take (length w) s = w then Some (v, drop (length w) s) else None)"

text \<open>
  Values, the elements of an array after its bracket and the members of an object after
  its brace call each other. Each call works on a shorter text: what a value leaves is
  shorter than what it was given, and the two tests of this below never fail
  (\<open>parse_value_shorter\<close>).
\<close>

lemma skip_ws_Cons_shorter: "skip_ws s = c # r \<Longrightarrow> length r < length s"
proof -
  assume "skip_ws s = c # r"
  then have "length (dropWhile is_json_ws s) = Suc (length r)"
    by (simp add: skip_ws_def)
  then show ?thesis
    using length_dropWhile_le [of is_json_ws s] by simp
qed

lemma parse_chars_shorter: "parse_chars s = Some (us, r) \<Longrightarrow> length r < length s"
proof (induction s arbitrary: us r rule: parse_chars.induct)
  case 1
  then show ?case by simp
next
  case (2 c s)
  then show ?case
    by (fastforce split: if_splits list.splits option.splits prod.splits)
qed

function parse_value :: "jstring \<Rightarrow> (json \<times> jstring) option"
  and parse_elements :: "jstring \<Rightarrow> (json list \<times> jstring) option"
  and parse_members :: "jstring \<Rightarrow> ((jstring \<times> json) list \<times> jstring) option"
where
  "parse_value s =
     (case skip_ws s of
        [] \<Rightarrow> None
      | c # r \<Rightarrow>
          if c = dquote then
            (case parse_chars r of
               None \<Rightarrow> None
             | Some (us, r') \<Rightarrow> Some (JString us, r'))
          else if c = ch CHR ''['' then
            (case skip_ws r of
               [] \<Rightarrow> None
             | c' # r' \<Rightarrow>
                 if c' = ch CHR '']'' then Some (JArray [], r')
                 else
                   (case parse_elements r of
                      None \<Rightarrow> None
                    | Some (vs, r'') \<Rightarrow> Some (JArray vs, r'')))
          else if c = ch CHR ''{'' then
            (case skip_ws r of
               [] \<Rightarrow> None
             | c' # r' \<Rightarrow>
                 if c' = ch CHR ''}'' then Some (JObject [], r')
                 else
                   (case parse_members r of
                      None \<Rightarrow> None
                    | Some (kvs, r'') \<Rightarrow> Some (JObject kvs, r'')))
          else if c = ch CHR ''t'' then parse_word (js ''true'') (JBool True) (c # r)
          else if c = ch CHR ''f'' then parse_word (js ''false'') (JBool False) (c # r)
          else if c = ch CHR ''n'' then parse_word (js ''null'') JNull (c # r)
          else
            (case parse_number (c # r) of
               None \<Rightarrow> None
             | Some (n, r') \<Rightarrow> Some (JNumber n, r')))"
| "parse_elements s =
     (case parse_value s of
        None \<Rightarrow> None
      | Some (v, r) \<Rightarrow>
          if length r < length s then
            (case skip_ws r of
               [] \<Rightarrow> None
             | c # r' \<Rightarrow>
                 if c = ch CHR '','' then
                   (case parse_elements r' of
                      None \<Rightarrow> None
                    | Some (vs, r'') \<Rightarrow> Some (v # vs, r''))
                 else if c = ch CHR '']'' then Some ([v], r')
                 else None)
          else None)"
| "parse_members s =
     (case skip_ws s of
        [] \<Rightarrow> None
      | c # r \<Rightarrow>
          if c = dquote then
            (case parse_chars r of
               None \<Rightarrow> None
             | Some (k, r1) \<Rightarrow>
                 (case skip_ws r1 of
                    [] \<Rightarrow> None
                  | c1 # r2 \<Rightarrow>
                      if c1 = ch CHR '':'' then
                        (case parse_value r2 of
                           None \<Rightarrow> None
                         | Some (v, r3) \<Rightarrow>
                             if length r3 < length r2 then
                               (case skip_ws r3 of
                                  [] \<Rightarrow> None
                                | c3 # r4 \<Rightarrow>
                                    if c3 = ch CHR '','' then
                                      (case parse_members r4 of
                                         None \<Rightarrow> None
                                       | Some (kvs, r5) \<Rightarrow> Some ((k, v) # kvs, r5))
                                    else if c3 = ch CHR ''}'' then Some ([(k, v)], r4)
                                    else None)
                             else None)
                      else None))
          else None)"
  by pat_completeness auto
termination
proof (relation "measure (\<lambda>x. case x of
                     Inl s \<Rightarrow> 2 * length s
                   | Inr (Inl s) \<Rightarrow> 2 * length s + 1
                   | Inr (Inr s) \<Rightarrow> 2 * length s + 1)", goal_cases)
  case 1
  then show ?case by simp
next
  case (2 s c r c' r')
  then show ?case using skip_ws_Cons_shorter [of s c r] by simp
next
  case (3 s c r c' r')
  then show ?case using skip_ws_Cons_shorter [of s c r] by simp
next
  case (4 s)
  then show ?case by simp
next
  case (5 s x2 v r c r')
  then show ?case using skip_ws_Cons_shorter [of r c r'] by simp
next
  case (6 s c r x2 k r1 c1 r2)
  then show ?case
    using skip_ws_Cons_shorter [of s c r] parse_chars_shorter [of r k r1]
      skip_ws_Cons_shorter [of r1 c1 r2] by simp
next
  case (7 s c r x2 k r1 c1 r2 x2a v r3 c3 r4)
  then show ?case
    using skip_ws_Cons_shorter [of s c r] parse_chars_shorter [of r k r1]
      skip_ws_Cons_shorter [of r1 c1 r2] skip_ws_Cons_shorter [of r3 c3 r4] by simp
qed

text \<open>
  The three equations call themselves, so they are unfolded by hand in the proofs below.
\<close>

declare parse_value.simps [simp del] parse_elements.simps [simp del] parse_members.simps [simp del]

text \<open>
  \<^verbatim>\<open>JSON.parse(text)\<close>: one value, with nothing but white space after it; anything else
  is a \<^verbatim>\<open>SyntaxError\<close>.
\<close>

definition JSON_parse :: "jstring \<Rightarrow> exception + json" where
  "JSON_parse s =
     (case parse_value s of
        None \<Rightarrow> Inl SyntaxError
      | Some (v, r) \<Rightarrow> if skip_ws r = [] then Inr v else Inl SyntaxError)"

subsection \<open>The persisted layout\<close>

text \<open>
  \<^verbatim>\<open>setMessages(JSON.parse(saved))\<close> takes whatever value the text holds; TypeScript does
  not check it. \<^verbatim>\<open>App\<close> reads the properties of a snippet by their names, so an array
  whose elements are objects with strings under \<^verbatim>\<open>id\<close>, \<^verbatim>\<open>category\<close>, \<^verbatim>\<open>title\<close> and
  \<^verbatim>\<open>content\<close> is a collection, in whatever order the properties stand in the text and
  whatever other properties the objects have (of a name written twice \<^verbatim>\<open>JSON.parse\<close>
  keeps the last value). The record keeps the four strings only: the text that
  \<^verbatim>\<open>JSON.stringify\<close> writes later for an object that was read with another order or
  with more properties is not described here. For a value that is not such an array
  \<open>as_messages\<close> is \<open>None\<close>: the state of the component is then not a
  \<^verbatim>\<open>MessageSnippet[]\<close>, and what it does is not described either.
\<close>

definition property_string :: "(jstring \<times> json) list \<Rightarrow> jstring \<Rightarrow> jstring option" where
  "property_string members name =
     (case map_of (rev members) name of
        Some (JString s) \<Rightarrow> Some s
      | _ \<Rightarrow> None)"

definition as_snippet :: "json \<Rightarrow> MessageSnippet option" where
  "as_snippet v =
     (case v of
        JObject members \<Rightarrow>
          (case (property_string members (js ''id''), property_string members (js ''category''),
                 property_string members (js ''title''), property_string members (js ''content'')) of
             (Some i, Some c, Some t, Some x) \<Rightarrow>
               Some \<lparr>id_of = i, category = c, title = t, content = x\<rparr>
           | _ \<Rightarrow> None)
      | _ \<Rightarrow> None)"

fun as_snippets :: "json list \<Rightarrow> MessageSnippet list option" where
  "as_snippets [] = Some []"
| "as_snippets (v # vs) =
     (case as_snippet v of
        None \<Rightarrow> None
      | Some m \<Rightarrow> (case as_snippets vs of None \<Rightarrow> None | Some ms \<Rightarrow> Some (m # ms)))"

definition as_messages :: "json \<Rightarrow> MessageSnippet list option" where
  "as_messages v = (case v of JArray vs \<Rightarrow> as_snippets vs | _ \<Rightarrow> None)"

subsection \<open>The state of the component and of the browser around it\<close>

text \<open>
  The state variables of \<^verbatim>\<open>App\<close> that the operations below read or write, and the parts
  of the browser they touch: \<^verbatim>\<open>localStorage\<close>, the console, the clipboard, the clock
  with the pending timers (each given by the time in milliseconds at which it is due;
  every timer of \<^verbatim>\<open>App\<close> runs \<^verbatim>\<open>setCopyFeedback(null)\<close>), and \<^verbatim>\<open>crypto.randomUUID\<close>,
  which is an unknown supply \<open>uuids\<close> of strings read one after the other.

  \<^verbatim>\<open>setMessages\<close> does not change \<^verbatim>\<open>messages\<close> at once: React queues the update and
  applies it when it renders the component again; \<open>queued\<close> holds the updates not yet
  applied. The other state variables have no effect attached and nobody reads them
  between the call of their setter and the next rendering, so their setters are modelled
  as assignments.
\<close>

record world =
  messages :: "MessageSnippet list"
  queued :: "(MessageSnippet list \<Rightarrow> MessageSnippet list) list"
  viewMode :: ViewMode
  editingSnippet :: "MessageSnippet option"
  copyFeedback :: "jstring option"
  showConfig :: bool
  localStorage :: "jstring \<rightharpoonup> jstring"
  console :: "jstring list"
  clipboard :: jstring
  now :: nat
  timers :: "nat list"
  uuids :: "nat \<Rightarrow> jstring"
  drawn :: nat

definition setMessages :: "(MessageSnippet list \<Rightarrow> MessageSnippet list) \<Rightarrow> world \<Rightarrow> world" where
  "setMessages f w = w\<lparr>queued := queued w @ [f]\<rparr>"

definition randomUUID :: "world \<Rightarrow> jstring \<times> world" where
  "randomUUID w = (uuids w (drawn w), w\<lparr>drawn := Suc (drawn w)\<rparr>)"

subsection \<open>Persistence: the two effects\<close>

definition storage_key :: jstring where
  "storage_key = js ''quickreply_messages''"

text \<open>
  \<^verbatim>\<open>
  useEffect(() => {
    const saved = localStorage.getItem('quickreply_messages');
    if (saved) {
      try { setMessages(JSON.parse(saved)); }
      catch (e) { console.error('Error loading snippets:', e); }
    }
  }, []);
  \<close>
  The empty string is falsy, so it is not parsed.
\<close>

definition load_effect :: "world \<Rightarrow> world option" where
  "load_effect w =
     (case localStorage w storage_key of
        None \<Rightarrow> Some w
      | Some saved \<Rightarrow>
          if saved = [] then Some w
          else
            (case JSON_parse saved of
               Inl e \<Rightarrow> Some (w\<lparr>console := console w @ [js ''Error loading snippets:'']\<rparr>)
             | Inr v \<Rightarrow>
                 (case as_messages v of
                    None \<Rightarrow> None
                  | Some ms \<Rightarrow> Some (setMessages (\<lambda>prev. ms) w))))"

text \<open>
  \<^verbatim>\<open>
  useEffect(() => {
    localStorage.setItem('quickreply_messages', JSON.stringify(messages));
  }, [messages]);
  \<close>
\<close>

definition save_effect :: "world \<Rightarrow> world" where
  "save_effect w = w\<lparr>localStorage := (localStorage w)(storage_key \<mapsto> JSON_stringify (messages w))\<rparr>"

text \<open>
  Rendering again after an event: the queued updates are applied in their order. Every
  update of \<^verbatim>\<open>App\<close> yields a new array, so \<^verbatim>\<open>messages\<close> has changed for the dependency
  list \<^verbatim>\<open>[messages]\<close> and the saving effect runs. Without a queued update \<^verbatim>\<open>messages\<close> is
  the same array and the effect does not run.
\<close>

definition render :: "world \<Rightarrow> world" where
  "render w =
     (case queued w of
        [] \<Rightarrow> w
      | _ # _ \<Rightarrow> save_effect (w\<lparr>messages := fold (\<lambda>f ms. f ms) (queued w) (messages w), queued := []\<rparr>))"

text \<open>An event: its handler runs to the end, then React renders.\<close>

definition dispatch :: "(world \<Rightarrow> world) \<Rightarrow> world \<Rightarrow> world" where
  "dispatch handler w = render (handler w)"

text \<open>
  Opening the page in a browser \<open>w\<close>: the state variables get the initial values of their
  \<^verbatim>\<open>useState\<close>, the first rendering runs both effects in the order of the source (the
  saving effect still sees the initial, empty \<^verbatim>\<open>messages\<close>), and the update queued by the
  loading effect leads to a second rendering. This is \<^verbatim>\<open>load()\<close> of the specification.
\<close>

definition initial :: "world \<Rightarrow> world" where
  "initial w =
     w\<lparr>messages := [], queued := [], viewMode := ListView, editingSnippet := None,
       copyFeedback := None, showConfig := False, timers := []\<rparr>"

definition mount :: "world \<Rightarrow> world option" where
  "mount w =
     (case load_effect (initial w) of
        None \<Rightarrow> None
      | Some w1 \<Rightarrow> Some (render (save_effect w1)))"

subsection \<open>Clearing everything\<close>

text \<open>
  \<^verbatim>\<open>
  if (confirm('Deseja realmente limpar tudo?')) {
    setMessages([]);
    localStorage.removeItem('quickreply_messages');
  }
  \<close>
  \<open>confirmed\<close> is the answer of the user.
\<close>

definition clear_onClick :: "bool \<Rightarrow> world \<Rightarrow> world" where
  "clear_onClick confirmed w =
     (if confirmed
      then (let w1 = setMessages (\<lambda>prev. []) w
            in w1\<lparr>localStorage := (localStorage w1)(storage_key := None)\<rparr>)
      else w)"

definition clear :: "bool \<Rightarrow> world \<Rightarrow> world" where
  "clear confirmed w = dispatch (clear_onClick confirmed) w"

subsection \<open>Adding and editing: \<^verbatim>\<open>addOrUpdateSnippet\<close>\<close>

text \<open>
  The three fields of the form. \<^verbatim>\<open>a || b\<close> on strings is \<open>b\<close> when \<open>a\<close> is empty.
  \<^verbatim>\<open>
  const snippet = {
    id: editingSnippet?.id || crypto.randomUUID(),
    category: formData.get('category') || 'Geral',
    title: formData.get('title') || 'Sem T\u00edtulo',
    content: formData.get('content') || '' };
  if (viewMode === 'edit') setMessages(prev => prev.map(m => m.id === snippet.id ? snippet : m));
  else setMessages(prev => [...prev, snippet]);
  setViewMode('list'); setEditingSnippet(null);
  \<close>
\<close>

record form =
  form_category :: jstring
  form_title :: jstring
  form_content :: jstring

definition or_else :: "jstring \<Rightarrow> jstring \<Rightarrow> jstring" where
  "or_else a b = (if a = [] then b else a)"

definition Sem_Titulo :: jstring where
  "Sem_Titulo = js ''Sem T'' @ [0xED] @ js ''tulo''"

definition replace_by_id :: "MessageSnippet \<Rightarrow> MessageSnippet list \<Rightarrow> MessageSnippet list" where
  "replace_by_id snippet prev = map (\<lambda>m. if id_of m = id_of snippet then snippet else m) prev"

definition addOrUpdateSnippet :: "form \<Rightarrow> world \<Rightarrow> world" where
  "addOrUpdateSnippet formData w =
     (let (i, w1) = (case editingSnippet w of
                       None \<Rightarrow> randomUUID w
                     | Some e \<Rightarrow> if id_of e = [] then randomUUID w else (id_of e, w));
          snippet = \<lparr>id_of = i,
                     category = or_else (form_category formData) (js ''Geral''),
                     title = or_else (form_title formData) Sem_Titulo,
                     content = or_else (form_content formData) []\<rparr>;
          w2 = (if viewMode w = EditView
                then setMessages (replace_by_id snippet) w1
                else setMessages (\<lambda>prev. prev @ [snippet]) w1)
      in w2\<lparr>viewMode := ListView, editingSnippet := None\<rparr>)"



subsection \<open>Tabular import: \<^verbatim>\<open>handleFileUpload\<close>\<close>

text \<open>
  \<^verbatim>\<open>XLSX.utils.sheet_to_json(worksheet, { header: 1 })\<close> yields the rows of the sheet as
  arrays of cells (\<^verbatim>\<open>any[][]\<close>). A cell is a JavaScript value: a hole of the row reads as
  \<^verbatim>\<open>undefined\<close>, a text cell is a string, a numeric cell a number, a logical cell a
  boolean. Of a number the code reads only whether it is falsy (\<open>+0\<close>, \<open>-0\<close> or
  \<open>NaN\<close>) and its string form, so a number is given by these two: \<open>CNumber True s\<close> is a
  falsy number and \<open>CNumber False s\<close> any other, \<open>s\<close> being what \<^verbatim>\<open>String\<close> makes of it.
\<close>

datatype cell =
    CUndefined
  | CNull
  | CBoolean bool
  | CNumber bool jstring
  | CString jstring

definition truthy :: "cell \<Rightarrow> bool" where
  "truthy c =
     (case c of
        CUndefined \<Rightarrow> False
      | CNull \<Rightarrow> False
      | CBoolean b \<Rightarrow> b
      | CNumber falsy s \<Rightarrow> \<not> falsy
      | CString s \<Rightarrow> s \<noteq> [])"

text \<open>\<^verbatim>\<open>String(v)\<close>.\<close>

definition ToString :: "cell \<Rightarrow> jstring" where
  "ToString c =
     (case c of
        CUndefined \<Rightarrow> js ''undefined''
      | CNull \<Rightarrow> js ''null''
      | CBoolean b \<Rightarrow> if b then js ''true'' else js ''false''
      | CNumber falsy s \<Rightarrow> s
      | CString s \<Rightarrow> s)"

text \<open>\<^verbatim>\<open>row[i]\<close>: an index outside the array reads as \<^verbatim>\<open>undefined\<close>.\<close>

definition cell_at :: "cell list \<Rightarrow> nat \<Rightarrow> cell" where
  "cell_at row i = (if i < length row then row ! i else CUndefined)"

text \<open>\<^verbatim>\<open>String(row[i] || fallback)\<close>.\<close>

definition cell_or :: "cell \<Rightarrow> jstring \<Rightarrow> jstring" where
  "cell_or c fallback = ToString (if truthy c then c else CString fallback)"

text \<open>
  \<^verbatim>\<open>String.prototype.trim\<close> removes white space and line terminators from both ends:
  the code units 9 to 13, the space, the no-break space, the other space separators of
  Unicode, the line and paragraph separators and the byte order mark.
\<close>

definition is_white_space :: "code_unit \<Rightarrow> bool" where
  "is_white_space c =
     (let n = unat c in
      (9 \<le> n \<and> n \<le> 13) \<or> n = 0x20 \<or> n = 0xA0 \<or> n = 0x1680 \<or> (0x2000 \<le> n \<and> n \<le> 0x200A) \<or>
      n = 0x2028 \<or> n = 0x2029 \<or> n = 0x202F \<or> n = 0x205F \<or> n = 0x3000 \<or> n = 0xFEFF)"

definition trim :: "jstring \<Rightarrow> jstring" where
  "trim s = rev (dropWhile is_white_space (rev (dropWhile is_white_space s)))"

text \<open>
  \<^verbatim>\<open>
  const newSnippets = (data as any[][])
    .slice(1)
    .filter(row => row.length >= 3)
    .map(row => ({
      id: crypto.randomUUID(),
      category: String(row[0] || 'Sem Categoria').trim(),
      title: String(row[1] || 'Sem T\u00edtulo').trim(),
      content: String(row[2] || '').trim() }));
  if (newSnippets.length > 0) {
    setMessages(prev => [...prev, ...newSnippets]);
    setShowConfig(false);
  }
  \<close>
\<close>

definition Sem_Categoria :: jstring where
  "Sem_Categoria = js ''Sem Categoria''"

definition snippet_of_row :: "jstring \<Rightarrow> cell list \<Rightarrow> MessageSnippet" where
  "snippet_of_row i row =
     \<lparr>id_of = i,
      category = trim (cell_or (cell_at row 0) Sem_Categoria),
      title = trim (cell_or (cell_at row 1) Sem_Titulo),
      content = trim (cell_or (cell_at row 2) [])\<rparr>"

fun map_rows :: "cell list list \<Rightarrow> world \<Rightarrow> MessageSnippet list \<times> world" where
  "map_rows [] w = ([], w)"
| "map_rows (row # rows) w =
     (let (i, w1) = randomUUID w;
          (snippets, w2) = map_rows rows w1
      in (snippet_of_row i row # snippets, w2))"

definition onload :: "cell list list \<Rightarrow> world \<Rightarrow> world" where
  "onload data w =
     (let (newSnippets, w1) = map_rows (filter (\<lambda>row. 3 \<le> length row) (drop 1 data)) w
      in if 0 < length newSnippets
         then (setMessages (\<lambda>prev. prev @ newSnippets) w1)\<lparr>showConfig := False\<rparr>
         else w1)"

text \<open>
  The file input: without a file nothing happens; with a file, the rows read from it
  reach \<^verbatim>\<open>reader.onload\<close>, which is an event of its own.
\<close>

definition handleFileUpload :: "cell list list option \<Rightarrow> world \<Rightarrow> world" where
  "handleFileUpload file w =
     (case file of
        None \<Rightarrow> w
      | Some data \<Rightarrow> dispatch (onload data) w)"

subsection \<open>Clipboard copy: \<^verbatim>\<open>handleCopy\<close> and its timer\<close>

text \<open>
  \<^verbatim>\<open>
  try {
    await navigator.clipboard.writeText(content);
    setCopyFeedback(id);
    setTimeout(() => setCopyFeedback(null), 1000);
  } catch (err) { console.error('Failed to copy text: ', err); }
  \<close>
  \<open>written\<close> says whether the clipboard took the text; the rest of the handler runs when
  the write has settled, at the time \<open>now\<close> of the world it is applied to. Nothing of
  \<^verbatim>\<open>App\<close> ever cancels a timer.
\<close>

definition handleCopy :: "bool \<Rightarrow> jstring \<Rightarrow> jstring \<Rightarrow> world \<Rightarrow> world" where
  "handleCopy written text i w =
     (if written
      then w\<lparr>clipboard := text, copyFeedback := Some i, timers := timers w @ [now w + 1000]\<rparr>
      else w\<lparr>console := console w @ [js ''Failed to copy text: '']\<rparr>)"

text \<open>
  Time passes until \<open>t\<close> with no action of the user: the timers due by then run, each
  setting \<^verbatim>\<open>copyFeedback\<close> to \<^verbatim>\<open>null\<close>, and are gone.
\<close>

definition advance_to :: "nat \<Rightarrow> world \<Rightarrow> world" where
  "advance_to t w =
     (if t < now w then w
      else w\<lparr>now := t,
             timers := filter (\<lambda>due. t < due) (timers w),
             copyFeedback := (if filter (\<lambda>due. due \<le> t) (timers w) = [] then copyFeedback w else None)\<rparr>)"

subsection \<open>A browser to run examples in\<close>

text \<open>Nothing stored, the clock at 0, and some supply of identifiers.\<close>

definition blank :: world where
  "blank =
     \<lparr>messages = [], queued = [], viewMode = ListView, editingSnippet = None,
      copyFeedback = None, showConfig = False, localStorage = Map.empty, console = [],
      clipboard = [], now = 0, timers = [], uuids = (\<lambda>n. js ''uuid-'' @ replicate n (ch CHR ''i'')),
      drawn = 0\<rparr>"

subsection \<open>The specification's reading of an imported cell\<close>

text \<open>
  As the specification words it: the trimmed string of the cell, or the fallback label if
  the cell is empty or missing.
\<close>

definition claimed_text :: "jstring \<Rightarrow> cell \<Rightarrow> jstring" where
  "claimed_text fallback c =
     (if c = CUndefined \<or> c = CNull \<or> c = CString [] then fallback else trim (ToString c))"

text \<open>
  The cells on which the two readings can differ are the falsy ones that are neither
  empty nor missing: \<^verbatim>\<open>false\<close> and the falsy numbers (zero and \<open>NaN\<close>).
\<close>

definition falsy_value :: "cell \<Rightarrow> bool" where
  "falsy_value c =
     (case c of
        CBoolean b \<Rightarrow> \<not> b
      | CNumber falsy s \<Rightarrow> falsy
      | _ \<Rightarrow> False)"

subsection \<open>The JSON value of a snippet\<close>


subsection \<open>The specification's reading of the grouping\<close>

text \<open>
  \<open>groups\<close> partitions \<open>ms\<close> by the exact category string: no category has two groups,
  and under a category that occurs in \<open>ms\<close> are the snippets of that category, all of
  them and in their order; there is no other group.
\<close>

definition groups_of :: "groups \<Rightarrow> MessageSnippet list \<Rightarrow> bool" where
  "groups_of groups ms \<longleftrightarrow>
     distinct (map fst groups) \<and>
     (\<forall>k. map_of groups k =
        (if k \<in> category ` set ms then Some (filter (\<lambda>m. category m = k) ms) else None))"

section \<open>Properties\<close>

subsection \<open>Filtering\<close>

lemma str_includes_iff_sublist: "str_includes s t \<longleftrightarrow> sublist t s"
  by (induction s) (auto simp: sublist_Cons_right)

lemma str_includes_empty: "str_includes s []"
  by (cases s) simp_all

lemma toLowerCase_empty: "toLowerCase [] = []"
  by (simp add: toLowerCase_def)

lemma filteredMessages_empty_term: "filteredMessages C [] = C"
  by (simp add: filteredMessages_def matches_def toLowerCase_empty str_includes_empty)

lemma lower_table_shape:
  "lower_table = (0x41, 0x5A, 1, 0x61) # tl lower_table \<and>
   list_all (\<lambda>(lo, hi, step, target). 128 \<le> lo) (tl lower_table)"
  by (simp add: lower_table_def)

lemma find_none: "list_all (\<lambda>x. \<not> P x) xs \<Longrightarrow> find P xs = None"
  by (induction xs) auto

lemma simple_lower_ascii:
  assumes "cp < 128"
  shows "simple_lower cp = (if 65 \<le> cp \<and> cp \<le> 90 then cp + 32 else cp)"
proof -
  define P :: "nat \<times> nat \<times> nat \<times> nat \<Rightarrow> bool"
    where "P = (\<lambda>(lo, hi, step, target). lo \<le> cp \<and> cp \<le> hi \<and> (cp - lo) mod step = 0)"
  from lower_table_shape have shape: "lower_table = (0x41, 0x5A, 1, 0x61) # tl lower_table"
    and rest: "list_all (\<lambda>(lo, hi, step, target). 128 \<le> lo) (tl lower_table)"
    by blast+
  from rest assms have "list_all (\<lambda>x. \<not> P x) (tl lower_table)"
    by (auto simp: list_all_iff P_def)
  then have "find P (tl lower_table) = None"
    by (rule find_none)
  then have head: "find P ((0x41, 0x5A, 1, 0x61) # tl lower_table) =
      (if 65 \<le> cp \<and> cp \<le> 90 then Some (0x41, 0x5A, 1, 0x61) else None)"
    by (simp add: P_def)
  have "find P lower_table =
      (if 65 \<le> cp \<and> cp \<le> 90 then Some (0x41, 0x5A, 1, 0x61) else None)"
    by (subst shape) (fact head)
  moreover have "simple_lower cp =
      (case find P lower_table of
         None \<Rightarrow> cp
       | Some (lo, hi, step, target) \<Rightarrow> target + (cp - lo))"
    by (simp add: simple_lower_def P_def)
  ultimately show ?thesis
    by auto
qed

lemma code_points_ascii: "list_all (\<lambda>c. unat c < 128) s \<Longrightarrow> code_points s = map unat s"
  by (induction s rule: code_points.induct) (auto simp: is_lead_def)

lemma lower_points_ascii:
  "list_all (\<lambda>cp. cp < 128) cps \<Longrightarrow>
   lower_points before cps = map (\<lambda>cp. if 65 \<le> cp \<and> cp \<le> 90 then cp + 32 else cp) cps"
  by (induction cps arbitrary: before) (simp_all add: simple_lower_ascii)

lemma toLowerCase_ascii: "is_ascii s \<Longrightarrow> toLowerCase s = map ascii_lower s"
proof -
  assume a: "is_ascii s"
  then have "list_all (\<lambda>cp. cp < 128) (map unat s)"
    by (simp add: is_ascii_def list_all_iff)
  with a have "toLowerCase s =
      concat (map utf16 (map (\<lambda>cp. if 65 \<le> cp \<and> cp \<le> 90 then cp + 32 else cp) (map unat s)))"
    by (simp add: toLowerCase_def is_ascii_def code_points_ascii lower_points_ascii)
  also have "\<dots> = map ascii_lower s"
    using a by (induction s) (auto simp: is_ascii_def utf16_def ascii_lower_def)
  finally show ?thesis .
qed


lemma unat_plus_32: "unat c \<le> 90 \<Longrightarrow> unat (c + 32 :: code_unit) = unat c + 32"
  by (simp add: unat_word_ariths)

lemma same_letter_iff:
  assumes "unat a < 128" and "unat b < 128"
  shows "same_letter a b \<longleftrightarrow> ascii_lower a = ascii_lower b"
  using assms
  by (auto simp: same_letter_def is_capital_def ascii_lower_def word_unat_eq_iff unat_plus_32)

lemma ci_prefix_iff:
  "is_ascii t \<Longrightarrow> is_ascii s \<Longrightarrow> ci_prefix t s \<longleftrightarrow> prefix (map ascii_lower t) (map ascii_lower s)"
  by (induction t s rule: ci_prefix.induct) (simp_all add: is_ascii_def same_letter_iff)

lemma ci_substring_iff:
  "is_ascii t \<Longrightarrow> is_ascii s \<Longrightarrow>
   ci_substring t s \<longleftrightarrow> str_includes (map ascii_lower s) (map ascii_lower t)"
proof (induction s)
  case Nil
  then show ?case by simp
next
  case (Cons b s)
  from Cons.prems have "is_ascii s"
    by (simp add: is_ascii_def)
  with Cons show ?case
    using ci_prefix_iff [of t "b # s"] by simp
qed

lemma matches_iff_spec:
  assumes "is_ascii t" and "is_ascii (title m)" and "is_ascii (category m)" and "is_ascii (content m)"
  shows "matches (toLowerCase t) m \<longleftrightarrow> spec_matches t m"
  using assms by (simp add: matches_def spec_matches_def toLowerCase_ascii ci_substring_iff)

text \<open>
  C1. The filter lowers both sides and looks for the lowered term in the lowered field.
  Lowering is not letter by letter: a capital sigma (U+03A3) at the end of a word becomes
  the final sigma (U+03C2), a capital sigma alone the ordinary one (U+03C3). So the
  snippet whose title is alpha, sigma (U+0391 U+03A3) is dropped for the term sigma
  (U+03A3), although the term stands in the title as it is, which makes it a
  case-insensitive substring in any reading.
\<close>

theorem filteredMessages_drops_final_sigma:
  "filteredMessages
     [\<lparr>id_of = js ''1'', category = js ''Grego'', title = [0x391, 0x3A3], content = js ''Ola''\<rparr>]
     [0x3A3] = [] \<and>
   sublist [0x3A3] [0x391, 0x3A3 :: code_unit]"
proof -
  have title: "toLowerCase [0x391, 0x3A3] = [0x3B1, 0x3C2]"
    by (simp add: toLowerCase_def utf16_def final_sigma_def simple_lower_def in_ranges_def
        is_lead_def is_trail_def lower_table_def cased_table_def case_ignorable_table_def)
  have "term": "toLowerCase [0x3A3] = [0x3C3]"
    by (simp add: toLowerCase_def utf16_def final_sigma_def)
  have category: "toLowerCase (js ''Grego'') = js ''grego''"
    by (simp add: toLowerCase_ascii is_ascii_def ascii_lower_def js_def ch_def)
  have content: "toLowerCase (js ''Ola'') = js ''ola''"
    by (simp add: toLowerCase_ascii is_ascii_def ascii_lower_def js_def ch_def)
  have "sublist [0x3A3] [0x391, 0x3A3 :: code_unit]"
    unfolding str_includes_iff_sublist [symmetric] by simp
  moreover have "filteredMessages
     [\<lparr>id_of = js ''1'', category = js ''Grego'', title = [0x391, 0x3A3], content = js ''Ola''\<rparr>]
     [0x3A3] = []"
    unfolding filteredMessages_def matches_def "term" Let_def filter.simps MessageSnippet.simps
      title category content
    by (simp add: js_def ch_def)
  ultimately show ?thesis
    by simp
qed

text \<open>
  On text of the ASCII range the filter is the specified one: for a term and a collection
  whose titles, categories and contents are ASCII, \<open>filteredMessages C t\<close> is the
  sub-sequence of \<open>C\<close>, in the order of \<open>C\<close>, of the snippets that have \<open>t\<close> as a
  case-insensitive substring of their title, category or content.
\<close>

theorem filteredMessages_ascii:
  assumes "is_ascii t"
    and "\<forall>m \<in> set C. is_ascii (title m) \<and> is_ascii (category m) \<and> is_ascii (content m)"
  shows "filteredMessages C t = filter (spec_matches t) C"
  unfolding filteredMessages_def Let_def
  by (rule filter_cong) (use assms in \<open>simp_all add: matches_iff_spec\<close>)

theorem filteredMessages_ascii_witness:
  "filteredMessages
     [\<lparr>id_of = js ''1'', category = js ''Sales'', title = js ''Greeting'', content = js ''Hello!''\<rparr>,
      \<lparr>id_of = js ''2'', category = js ''Sales'', title = js ''Bye'', content = js ''See you''\<rparr>,
      \<lparr>id_of = js ''3'', category = js ''Shell'', title = js ''Prompt'', content = js ''$''\<rparr>]
     (js ''HeL'')
   = [\<lparr>id_of = js ''1'', category = js ''Sales'', title = js ''Greeting'', content = js ''Hello!''\<rparr>,
      \<lparr>id_of = js ''3'', category = js ''Shell'', title = js ''Prompt'', content = js ''$''\<rparr>]"
  using filteredMessages_ascii
    [of "js ''HeL''"
        "[\<lparr>id_of = js ''1'', category = js ''Sales'', title = js ''Greeting'', content = js ''Hello!''\<rparr>,
          \<lparr>id_of = js ''2'', category = js ''Sales'', title = js ''Bye'', content = js ''See you''\<rparr>,
          \<lparr>id_of = js ''3'', category = js ''Shell'', title = js ''Prompt'', content = js ''$''\<rparr>]"]
  by (simp add: is_ascii_def spec_matches_def same_letter_def is_capital_def js_def ch_def)

subsection \<open>Grouping and display order\<close>

text \<open>
  C5. The groups are shown in the order of the string forms of the entries
  \<^verbatim>\<open>[category, items]\<close>, not of the categories: the comma that follows the category in
  the string form is compared with the next character of a longer category. With the
  categories \<^verbatim>\<open>Vendas\<close> and \<^verbatim>\<open>Vendas 2\<close>, the group \<^verbatim>\<open>Vendas 2\<close> comes first, although
  \<^verbatim>\<open>Vendas\<close> is the smaller string.
\<close>

theorem displayed_order_of_entry_strings:
  "displayed
     [\<lparr>id_of = js ''1'', category = js ''Vendas'', title = js ''Oi'', content = js ''Bom dia''\<rparr>,
      \<lparr>id_of = js ''2'', category = js ''Vendas 2'', title = js ''Tchau'',
        content = js ''Obrigado''\<rparr>] []
   = Inr [(js ''Vendas 2'',
           [\<lparr>id_of = js ''2'', category = js ''Vendas 2'', title = js ''Tchau'',
              content = js ''Obrigado''\<rparr>]),
          (js ''Vendas'',
           [\<lparr>id_of = js ''1'', category = js ''Vendas'', title = js ''Oi'',
              content = js ''Bom dia''\<rparr>])]
   \<and> js ''Vendas'' < js ''Vendas 2''"
  by (simp add: displayed_def filteredMessages_empty_term groupedMessages_def group_one_def
      get_property_def Object_prototype_names_def sort_by_string_def Object_entries_def
      is_array_index_def is_digit_def decimal_def entry_toString_def Let_def js_def ch_def)

text \<open>
  C6. A snippet whose category is the name of a property that every object inherits
  (here \<^verbatim>\<open>constructor\<close>) makes the grouping throw a \<^verbatim>\<open>TypeError\<close>: the inherited value is
  truthy, so no array is created, and it has no \<^verbatim>\<open>push\<close>. There are no groups then.
\<close>

theorem groupedMessages_inherited_name:
  "groupedMessages
     (filteredMessages
        [\<lparr>id_of = js ''1'', category = js ''constructor'', title = js ''Oi'',
           content = js ''Bom dia''\<rparr>] [])
   = Inl TypeError"
  by (simp add: filteredMessages_empty_term groupedMessages_def group_one_def get_property_def
      Object_prototype_names_def Let_def js_def ch_def)
subsection \<open>Clearing\<close>

lemma render_queued:
  "queued w = fs @ [f] \<Longrightarrow>
   render w = save_effect (w\<lparr>messages := f (fold (\<lambda>g ms. g ms) fs (messages w)), queued := []\<rparr>)"
proof -
  assume q: "queued w = fs @ [f]"
  then have "queued w \<noteq> []"
    by simp
  then have "render w =
      save_effect (w\<lparr>messages := fold (\<lambda>g ms. g ms) (queued w) (messages w), queued := []\<rparr>)"
    by (cases "queued w") (simp_all add: render_def)
  then show ?thesis
    by (simp add: q)
qed

lemma render_idle: "queued w = [] \<Longrightarrow> render w = w"
  by (simp add: render_def)

text \<open>
  C3. After the confirmed clearing the collection is empty, but the slot is not absent:
  the handler removes it, and the rendering that follows the handler runs the saving
  effect, which writes the empty collection \<^verbatim>\<open>[]\<close> into the slot again. This holds in
  every state.
\<close>

theorem clear_writes_slot_again:
  "localStorage (clear True w) storage_key = Some (js ''[]'') \<and> messages (clear True w) = []"
proof -
  let ?w1 = "clear_onClick True w"
  have q: "queued ?w1 = queued w @ [\<lambda>prev. []]"
    by (simp add: clear_onClick_def setMessages_def Let_def)
  show ?thesis
    unfolding clear_def dispatch_def render_queued [OF q]
    by (simp add: save_effect_def JSON_stringify_def js_def)
qed

subsection \<open>Editing\<close>





subsection \<open>Tabular import\<close>

lemma enumerate_Suc_shift: "enumerate (Suc n) xs = map (\<lambda>(k, x). (Suc k, x)) (enumerate n xs)"
  by (induction xs arbitrary: n) simp_all

lemma enumerate_eq_Nil: "enumerate n xs = [] \<longleftrightarrow> xs = []"
  by (cases xs) simp_all

lemma map_rows_eq:
  "map_rows rows w =
     (map (\<lambda>(k, row). snippet_of_row (uuids w (drawn w + k)) row) (enumerate 0 rows),
      w\<lparr>drawn := drawn w + length rows\<rparr>)"
proof (induction rows arbitrary: w)
  case Nil
  then show ?case by simp
next
  case (Cons row rows)
  show ?case
    by (simp add: Cons.IH randomUUID_def enumerate_Suc_shift split_def comp_def)
qed

lemma import_messages:
  assumes "queued w = []"
  shows "messages (handleFileUpload (Some data) w) =
         messages w @
         map (\<lambda>(k, row). snippet_of_row (uuids w (drawn w + k)) row)
           (enumerate 0 (filter (\<lambda>row. 3 \<le> length row) (drop 1 data)))"
proof (cases "filter (\<lambda>row. 3 \<le> length row) (drop 1 data) = []")
  case True
  then show ?thesis
    using assms by (simp add: handleFileUpload_def dispatch_def onload_def map_rows_eq render_idle)
next
  case False
  let ?rows = "filter (\<lambda>row. 3 \<le> length row) (drop 1 data)"
  let ?new = "map (\<lambda>(k, row). snippet_of_row (uuids w (drawn w + k)) row) (enumerate 0 ?rows)"
  have q: "queued (onload data w) = [] @ [\<lambda>prev. prev @ ?new]"
    using False assms by (simp add: onload_def map_rows_eq setMessages_def enumerate_eq_Nil)
  have m: "messages (onload data w) = messages w"
    using False by (simp add: onload_def map_rows_eq setMessages_def enumerate_eq_Nil)
  show ?thesis
    unfolding handleFileUpload_def dispatch_def option.case render_queued [OF q]
    by (simp add: save_effect_def m)
qed

lemma import_row:
  assumes "queued w = []" and "k < length (filter (\<lambda>row. 3 \<le> length row) (drop 1 data))"
  shows "messages (handleFileUpload (Some data) w) ! (length (messages w) + k) =
         snippet_of_row (uuids w (drawn w + k)) (filter (\<lambda>row. 3 \<le> length row) (drop 1 data) ! k)"
  unfolding import_messages [OF assms(1)] using assms(2)
  by (simp add: nth_append nth_enumerate_eq)

lemma cell_at_nth: "i < length row \<Longrightarrow> cell_at row i = row ! i"
  by (simp add: cell_at_def)

lemma trim_Sem_Categoria: "trim Sem_Categoria = Sem_Categoria"
  by (simp add: trim_def Sem_Categoria_def is_white_space_def js_def ch_def)

lemma trim_Sem_Titulo: "trim Sem_Titulo = Sem_Titulo"
  by (simp add: trim_def Sem_Titulo_def is_white_space_def js_def ch_def)

lemma trim_empty: "trim [] = []"
  by (simp add: trim_def)

lemma trim_cell_or:
  assumes "\<not> falsy_value c" and "trim fallback = fallback"
  shows "trim (cell_or c fallback) = claimed_text fallback c"
  using assms
  by (cases c) (simp_all add: cell_or_def truthy_def falsy_value_def claimed_text_def ToString_def)

lemma snippet_of_row_eq:
  assumes "3 \<le> length row"
    and "\<not> falsy_value (row ! 0)" and "\<not> falsy_value (row ! 1)" and "\<not> falsy_value (row ! 2)"
  shows "snippet_of_row i row =
         \<lparr>id_of = i,
          category = claimed_text Sem_Categoria (row ! 0),
          title = claimed_text Sem_Titulo (row ! 1),
          content = claimed_text [] (row ! 2)\<rparr>"
proof -
  from assms(1) have "cell_at row 0 = row ! 0" "cell_at row 1 = row ! 1" "cell_at row 2 = row ! 2"
    by (auto simp: cell_at_def)
  then show ?thesis
    using assms(2-4)
    by (simp add: snippet_of_row_def trim_cell_or trim_Sem_Categoria trim_Sem_Titulo trim_empty)
qed

text \<open>
  C4. A numeric cell holding zero in the category column is neither empty nor missing,
  and its trimmed string is \<^verbatim>\<open>0\<close>; the snippet imported from the row has the fallback
  label \<^verbatim>\<open>Sem Categoria\<close> instead, because \<^verbatim>\<open>row[0] || 'Sem Categoria'\<close> replaces every falsy
  cell, not only the empty and the missing ones.
\<close>

theorem import_zero_cell_gets_fallback:
  "category
     (last (messages
        (handleFileUpload
           (Some [[CString (js ''Categoria''), CString (js ''Titulo''), CString (js ''Texto'')],
                  [CNumber True (js ''0''), CString (js ''Greeting''), CString (js ''Hello!'')]])
           blank)))
   = Sem_Categoria \<and>
   claimed_text Sem_Categoria (CNumber True (js ''0'')) = js ''0'' \<and>
   Sem_Categoria \<noteq> js ''0''"
proof -
  have "queued blank = []"
    by (simp add: blank_def)
  from import_messages [OF this] show ?thesis
    by (simp add: snippet_of_row_def cell_at_def cell_or_def truthy_def ToString_def trim_def
        is_white_space_def Sem_Categoria_def claimed_text_def js_def ch_def)
qed

text \<open>
  Where no cell of the first three of a row is \<^verbatim>\<open>false\<close> or a falsy number, the import
  does what is specified. The first row and the rows with fewer than three cells are
  dropped. Every other row yields one snippet, appended in the order of the rows to the
  collection there was: its identifier is the next one drawn from \<^verbatim>\<open>crypto.randomUUID\<close>,
  its category, title and content are the trimmed strings of the cells 0, 1 and 2, with
  the fallback label (the empty string for the content) for an empty or missing cell.
\<close>

theorem import_appends_rows:
  assumes "queued w = []"
    and "\<forall>row \<in> set (drop 1 data). 3 \<le> length row \<longrightarrow>
           \<not> falsy_value (row ! 0) \<and> \<not> falsy_value (row ! 1) \<and> \<not> falsy_value (row ! 2)"
  shows "messages (handleFileUpload (Some data) w) =
         messages w @
         map (\<lambda>(k, row).
                \<lparr>id_of = uuids w (drawn w + k),
                 category = claimed_text Sem_Categoria (row ! 0),
                 title = claimed_text Sem_Titulo (row ! 1),
                 content = claimed_text [] (row ! 2)\<rparr>)
           (enumerate 0 (filter (\<lambda>row. 3 \<le> length row) (drop 1 data)))"
proof -
  have "snippet_of_row (uuids w (drawn w + k)) row =
        \<lparr>id_of = uuids w (drawn w + k),
         category = claimed_text Sem_Categoria (row ! 0),
         title = claimed_text Sem_Titulo (row ! 1),
         content = claimed_text [] (row ! 2)\<rparr>"
    if "(k, row) \<in> set (enumerate 0 (filter (\<lambda>row. 3 \<le> length row) (drop 1 data)))" for k row
  proof -
    from that have "k < length (filter (\<lambda>row. 3 \<le> length row) (drop 1 data))"
      and "filter (\<lambda>row. 3 \<le> length row) (drop 1 data) ! k = row"
      by (simp_all add: in_set_enumerate_eq)
    then have "row \<in> set (filter (\<lambda>row. 3 \<le> length row) (drop 1 data))"
      using nth_mem by blast
    then have "row \<in> set (drop 1 data)" and "3 \<le> length row"
      by simp_all
    with assms(2) show ?thesis
      by (simp add: snippet_of_row_eq)
  qed
  then show ?thesis
    unfolding import_messages [OF assms(1)] by (auto intro!: map_cong)
qed

theorem import_appends_rows_witness:
  "messages
     (handleFileUpload
        (Some [[CString (js ''Categoria''), CString (js ''Titulo''), CString (js ''Texto'')],
               [CString (js ''Sales''), CString (js ''Greeting''), CString (js ''Hello!'')],
               [CString (js ''short'')],
               [CString [], CUndefined, CString []]])
        (blank\<lparr>messages := [\<lparr>id_of = js ''a'', category = js ''Shell'', title = js ''Prompt'', content = js ''$''\<rparr>]\<rparr>))
   = [\<lparr>id_of = js ''a'', category = js ''Shell'', title = js ''Prompt'', content = js ''$''\<rparr>,
      \<lparr>id_of = js ''uuid-'', category = js ''Sales'', title = js ''Greeting'', content = js ''Hello!''\<rparr>,
      \<lparr>id_of = js ''uuid-i'', category = Sem_Categoria, title = Sem_Titulo, content = []\<rparr>]"
  using import_appends_rows
    [of "blank\<lparr>messages := [\<lparr>id_of = js ''a'', category = js ''Shell'', title = js ''Prompt'', content = js ''$''\<rparr>]\<rparr>"
        "[[CString (js ''Categoria''), CString (js ''Titulo''), CString (js ''Texto'')],
          [CString (js ''Sales''), CString (js ''Greeting''), CString (js ''Hello!'')],
          [CString (js ''short'')],
          [CString [], CUndefined, CString []]]"]
  by (simp add: blank_def claimed_text_def falsy_value_def ToString_def trim_def
      is_white_space_def js_def ch_def)

lemma trim_white_space: "list_all is_white_space s \<Longrightarrow> trim s = []"
proof -
  assume "list_all is_white_space s"
  then have none_left: "dropWhile is_white_space s = []"
    by (simp add: list_all_iff)
  show ?thesis
    unfolding trim_def none_left by simp
qed

text \<open>
  C10. Let \<open>row\<close> be the \<open>k\<close>-th of the rows that are imported (the rows after the first
  that have at least three cells), and \<open>s\<close> a non-empty string of white space only. The
  snippet made from this row is the one at the position \<open>k\<close> after the snippets that
  were there. If the category cell of the row is \<open>s\<close>, the category of this snippet is
  the empty string; if the title cell is \<open>s\<close>, its title is the empty string. Neither is
  the fallback label, which is not empty: the fallback is put in before the trimming.
\<close>

theorem import_white_space_cell:
  assumes "queued w = []"
    and "k < length (filter (\<lambda>row. 3 \<le> length row) (drop 1 data))"
    and "filter (\<lambda>row. 3 \<le> length row) (drop 1 data) ! k = row"
    and "s \<noteq> []" and "list_all is_white_space s"
  shows "(row ! 0 = CString s \<longrightarrow>
            category (messages (handleFileUpload (Some data) w) ! (length (messages w) + k)) = []) \<and>
         (row ! 1 = CString s \<longrightarrow>
            title (messages (handleFileUpload (Some data) w) ! (length (messages w) + k)) = []) \<and>
         id_of (messages (handleFileUpload (Some data) w) ! (length (messages w) + k)) =
           uuids w (drawn w + k) \<and>
         Sem_Categoria \<noteq> [] \<and> Sem_Titulo \<noteq> []"
proof -
  let ?rows = "filter (\<lambda>row. 3 \<le> length row) (drop 1 data)"
  have at: "messages (handleFileUpload (Some data) w) ! (length (messages w) + k) =
            snippet_of_row (uuids w (drawn w + k)) row"
    using import_row [OF assms(1,2)] assms(3) by simp
  from assms(2,3) have "row \<in> set ?rows"
    using nth_mem by blast
  then have "3 \<le> length row"
    by simp
  then have cells: "cell_at row 0 = row ! 0" "cell_at row 1 = row ! 1"
    by (auto simp: cell_at_def)
  have blank_cell: "trim (cell_or (CString s) fallback) = []" for fallback
    using assms(4,5) by (simp add: cell_or_def truthy_def ToString_def trim_white_space)
  have "category (snippet_of_row (uuids w (drawn w + k)) row) = []" if "row ! 0 = CString s"
    unfolding snippet_of_row_def cells that by (simp add: blank_cell)
  moreover have "title (snippet_of_row (uuids w (drawn w + k)) row) = []" if "row ! 1 = CString s"
    unfolding snippet_of_row_def cells that by (simp add: blank_cell)
  moreover have "id_of (snippet_of_row (uuids w (drawn w + k)) row) = uuids w (drawn w + k)"
    by (simp add: snippet_of_row_def)
  moreover have "Sem_Categoria \<noteq> []" "Sem_Titulo \<noteq> []"
    by (simp_all add: Sem_Categoria_def Sem_Titulo_def js_def)
  ultimately show ?thesis
    unfolding at by simp
qed

theorem import_white_space_cell_witness:
  "category
     (messages
        (handleFileUpload
           (Some [[CString (js ''Categoria''), CString (js ''Titulo''), CString (js ''Texto'')],
                  [CString (js ''Sales''), CString (js ''Greeting''), CString (js ''Hello!'')],
                  [CString (js '' ''), CString (js '' ''), CString (js ''Hi'')]]) blank) ! 1) = [] \<and>
   title
     (messages
        (handleFileUpload
           (Some [[CString (js ''Categoria''), CString (js ''Titulo''), CString (js ''Texto'')],
                  [CString (js ''Sales''), CString (js ''Greeting''), CString (js ''Hello!'')],
                  [CString (js '' ''), CString (js '' ''), CString (js ''Hi'')]]) blank) ! 1) = []"
  using import_white_space_cell
    [of blank 1
        "[[CString (js ''Categoria''), CString (js ''Titulo''), CString (js ''Texto'')],
          [CString (js ''Sales''), CString (js ''Greeting''), CString (js ''Hello!'')],
          [CString (js '' ''), CString (js '' ''), CString (js ''Hi'')]]"
        "[CString (js '' ''), CString (js '' ''), CString (js ''Hi'')]" "js '' ''"]
  by (simp add: blank_def is_white_space_def js_def ch_def)

subsection \<open>Loading\<close>

lemma initial_storage: "localStorage (initial w) = localStorage w"
  by (simp add: initial_def)

text \<open>
  C8. Opening the page gives the empty collection when there is no slot, and when the
  stored text does not parse. The page is there in both cases (\<open>mount\<close> yields a state).
  A text that fails to parse leaves one entry in the console and nothing else; the empty
  text is not even parsed and leaves none.
\<close>

theorem mount_without_collection:
  "(localStorage w storage_key = None \<longrightarrow>
      map_option messages (mount w) = Some [] \<and>
      map_option console (mount w) = Some (console w)) \<and>
   (localStorage w storage_key = Some saved \<and> JSON_parse saved = Inl e \<longrightarrow>
      map_option messages (mount w) = Some [] \<and>
      map_option console (mount w) =
        Some (console w @ (if saved = [] then [] else [js ''Error loading snippets:''])))"
  by (simp add: mount_def load_effect_def initial_storage render_def save_effect_def)
    (simp add: initial_def)

theorem mount_without_collection_witness:
  "map_option messages (mount blank) = Some [] \<and>
   map_option console (mount blank) = Some [] \<and>
   map_option messages (mount (blank\<lparr>localStorage := [storage_key \<mapsto> js ''[{'']\<rparr>)) = Some [] \<and>
   map_option console (mount (blank\<lparr>localStorage := [storage_key \<mapsto> js ''[{'']\<rparr>))
     = Some [js ''Error loading snippets:'']"
proof -
  have "JSON_parse (js ''[{'') = Inl SyntaxError"
    by (simp add: JSON_parse_def parse_value.simps parse_elements.simps parse_members.simps
        skip_ws_def is_json_ws_def dquote_def js_def ch_def)
  then show ?thesis
    using mount_without_collection [of blank "[]" SyntaxError]
      mount_without_collection
        [of "blank\<lparr>localStorage := [storage_key \<mapsto> js ''[{'']\<rparr>" "js ''[{''" SyntaxError]
    by (simp add: blank_def js_def)
qed

subsection \<open>The copy acknowledgment\<close>

text \<open>
  C9. The item \<open>x\<close> is copied at 0 ms and the item \<open>y\<close> at 500 ms. The acknowledgment
  of \<open>y\<close> is to be shown for the fixed duration of 1000 ms, that is until 1500 ms. It is
  shown at 999 ms and gone at 1000 ms: the timer started by the copy of \<open>x\<close> is never
  cancelled, and it sets the key to \<^verbatim>\<open>null\<close> whatever item the key then holds.
\<close>

theorem copy_feedback_cut_short:
  "copyFeedback
     (advance_to 999
        (handleCopy True (js ''Bye'') (js ''y'')
           (advance_to 500 (handleCopy True (js ''Hello!'') (js ''x'') blank))))
   = Some (js ''y'') \<and>
   copyFeedback
     (advance_to 1000
        (handleCopy True (js ''Bye'') (js ''y'')
           (advance_to 500 (handleCopy True (js ''Hello!'') (js ''x'') blank))))
   = None \<and>
   (1000 :: nat) < 500 + 1000"
  by (simp add: handleCopy_def advance_to_def blank_def)

text \<open>
  With no timer pending, a successful copy of the item \<open>x\<close> at the time \<open>now w\<close> shows its
  acknowledgment until 1000 ms later and then clears it, with no action of the user; a
  copy of another item in between overwrites the key at once.
\<close>

theorem copy_feedback_single:
  assumes "timers w = []"
  shows "(\<forall>t \<ge> now w.
            copyFeedback (advance_to t (handleCopy True text x w)) =
              (if t < now w + 1000 then Some x else None)) \<and>
         (\<forall>t \<ge> now w.
            copyFeedback (handleCopy True text' y (advance_to t (handleCopy True text x w))) = Some y)"
  using assms by (auto simp: handleCopy_def advance_to_def)

theorem copy_feedback_single_witness:
  "copyFeedback (advance_to 999 (handleCopy True (js ''Hello!'') (js ''x'') blank)) = Some (js ''x'') \<and>
   copyFeedback (advance_to 1000 (handleCopy True (js ''Hello!'') (js ''x'') blank)) = None \<and>
   copyFeedback
     (handleCopy True (js ''Bye'') (js ''y'') (advance_to 500 (handleCopy True (js ''Hello!'') (js ''x'') blank)))
     = Some (js ''y'')"
  using copy_feedback_single [of blank "js ''Hello!''" "js ''x''" "js ''Bye''" "js ''y''"]
  by (simp add: blank_def)

subsection \<open>Round trip through \<^verbatim>\<open>JSON.stringify\<close> and \<^verbatim>\<open>JSON.parse\<close>\<close>





































subsection \<open>What a parsed value leaves is shorter\<close>

lemma parse_word_shorter: "w \<noteq> [] \<Longrightarrow> parse_word w v s = Some (x, r) \<Longrightarrow> length r < length s"
proof -
  assume w: "w \<noteq> []" and p: "parse_word w v s = Some (x, r)"
  then have "take (length w) s = w" and r: "r = drop (length w) s"
    by (auto simp: parse_word_def split: if_splits)
  then have "length (take (length w) s) = length w"
    by simp
  then have "length w \<le> length s"
    by (simp add: min_def split: if_splits)
  with w r show ?thesis
    by (cases w) simp_all
qed

lemma digits_shorter: "digits s = (ds, r) \<Longrightarrow> length r \<le> length s"
  by (auto simp: digits_def length_dropWhile_le)

lemma parse_integer_shorter: "parse_integer s = Some (i, r) \<Longrightarrow> length r < length s"
  by (auto simp: parse_integer_def split: list.splits if_splits prod.splits
      dest!: digits_shorter)

lemma parse_fraction_shorter: "parse_fraction s = Some (f, r) \<Longrightarrow> length r \<le> length s"
  by (auto simp: parse_fraction_def Let_def split: list.splits if_splits prod.splits
      dest!: digits_shorter)

lemma parse_exponent_shorter: "parse_exponent s = Some (e, r) \<Longrightarrow> length r \<le> length s"
  by (auto simp: parse_exponent_def Let_def split: list.splits if_splits prod.splits
      dest!: digits_shorter)

lemma parse_number_shorter: "parse_number s = Some (n, r) \<Longrightarrow> length r < length s"
  by (auto simp: parse_number_def Let_def split: list.splits if_splits option.splits prod.splits
      dest!: parse_integer_shorter parse_fraction_shorter parse_exponent_shorter)

lemma parse_value_shorter:
  shows "parse_value s = Some (v, r) \<Longrightarrow> length r < length s"
    and "parse_elements s = Some (vs, r) \<Longrightarrow> length r < length s"
    and "parse_members s = Some (kvs, r) \<Longrightarrow> length r < length s"
proof (induction s and s and s arbitrary: v r and vs r and kvs r
    rule: parse_value_parse_elements_parse_members.induct)
  case (1 s)
  show ?case
  proof (cases "skip_ws s")
    case Nil
    with "1.prems" show ?thesis
      by (subst (asm) parse_value.simps) simp
  next
    case (Cons c t)
    note shorter = skip_ws_Cons_shorter [OF Cons]
    note p = "1.prems" [unfolded parse_value.simps [of s] Cons list.case]
    have after_bracket: "length r' < length s" if "skip_ws t = c' # r'" for c' r'
      using skip_ws_Cons_shorter [OF that] shorter by simp
    consider (str) "c = dquote"
      | (arr) "c \<noteq> dquote" "c = ch CHR ''[''"
      | (obj) "c \<noteq> dquote" "c \<noteq> ch CHR ''[''" "c = ch CHR ''{''"
      | (other) "c \<noteq> dquote" "c \<noteq> ch CHR ''[''" "c \<noteq> ch CHR ''{''"
      by blast
    then show ?thesis
    proof cases
      case str
      with p obtain us where "parse_chars t = Some (us, r)"
        by (auto split: option.splits)
      then show ?thesis
        using parse_chars_shorter [of t us r] shorter by simp
    next
      case arr
      show ?thesis
      proof (cases "skip_ws t")
        case Nil
        with p arr show ?thesis by simp
      next
        case inner: (Cons c' t')
        show ?thesis
        proof (cases "c' = ch CHR '']''")
          case True
          with p arr inner have "r = t'" by simp
          with after_bracket [OF inner] show ?thesis by simp
        next
          case False
          with p arr inner obtain vs where "parse_elements t = Some (vs, r)"
            by (auto split: option.splits)
          from "1.IH"(1) [OF Cons arr inner False this] shorter show ?thesis
            by simp
        qed
      qed
    next
      case obj
      show ?thesis
      proof (cases "skip_ws t")
        case Nil
        with p obj show ?thesis by simp
      next
        case inner: (Cons c' t')
        show ?thesis
        proof (cases "c' = ch CHR ''}''")
          case True
          with p obj inner have "r = t'" by simp
          with after_bracket [OF inner] show ?thesis by simp
        next
          case False
          with p obj inner obtain kvs where "parse_members t = Some (kvs, r)"
            by (auto split: option.splits)
          from "1.IH"(2) [OF Cons obj inner False this] shorter show ?thesis
            by simp
        qed
      qed
    next
      case other
      have "length r' \<le> length t" if "parse_word w x (c # t) = Some (y, r')" "w \<noteq> []"
        for w x y r'
        using parse_word_shorter [OF that(2,1)] by simp
      moreover have "length r' \<le> length t" if "parse_number (c # t) = Some (n, r')" for n r'
        using parse_number_shorter [OF that] by simp
      ultimately have "length r \<le> length t"
        using p other by (auto simp: js_def split: if_splits option.splits)
      with shorter show ?thesis
        by simp
    qed
  qed
next
  case (2 s)
  note p = "2.prems" [unfolded parse_elements.simps [of s]]
  from p obtain v r1 where v: "parse_value s = Some (v, r1)"
    by (auto split: option.splits)
  with p have r1: "length r1 < length s"
    by (auto split: if_splits)
  show ?case
  proof (cases "skip_ws r1")
    case Nil
    with p v r1 show ?thesis by simp
  next
    case (Cons c t)
    note shorter = skip_ws_Cons_shorter [OF Cons]
    show ?thesis
    proof (cases "c = ch CHR '',''")
      case True
      with p v r1 Cons obtain vs' where "parse_elements t = Some (vs', r)"
        by (auto split: option.splits)
      from "2.IH"(2) [OF v refl r1 Cons True this] shorter r1 show ?thesis
        by simp
    next
      case False
      with p v r1 Cons have "r = t"
        by (auto split: if_splits)
      with shorter r1 show ?thesis by simp
    qed
  qed
next
  case (3 s)
  note p = "3.prems" [unfolded parse_members.simps [of s]]
  show ?case
  proof (cases "skip_ws s")
    case Nil
    with p show ?thesis by simp
  next
    case (Cons c t)
    note t = skip_ws_Cons_shorter [OF Cons]
    from p Cons have c: "c = dquote"
      by (auto split: if_splits)
    with p Cons obtain k r1 where k: "parse_chars t = Some (k, r1)"
      by (auto split: option.splits)
    note r1 = parse_chars_shorter [OF k]
    show ?thesis
    proof (cases "skip_ws r1")
      case Nil
      with p Cons c k show ?thesis by simp
    next
      case colon: (Cons c1 r2)
      note r2 = skip_ws_Cons_shorter [OF colon]
      from p Cons c k colon have c1: "c1 = ch CHR '':''"
        by (auto split: if_splits)
      with p Cons c k colon obtain v r3 where v: "parse_value r2 = Some (v, r3)"
        by (auto split: option.splits)
      with p Cons c k colon c1 have r3: "length r3 < length r2"
        by (auto split: if_splits)
      show ?thesis
      proof (cases "skip_ws r3")
        case Nil
        with p Cons c k colon c1 v r3 show ?thesis by simp
      next
        case sep: (Cons c3 r4)
        note r4 = skip_ws_Cons_shorter [OF sep]
        show ?thesis
        proof (cases "c3 = ch CHR '',''")
          case True
          with p Cons c k colon c1 v r3 sep obtain kvs' where "parse_members r4 = Some (kvs', r)"
            by (auto split: option.splits)
          from "3.IH"(2) [OF Cons c k refl colon c1 v refl r3 sep True this] t r1 r2 r3 r4
          show ?thesis by simp
        next
          case False
          with p Cons c k colon c1 v r3 sep have "r = r4"
            by (auto split: if_splits)
          with t r1 r2 r3 r4 show ?thesis by simp
        qed
      qed
    qed
  qed
qed


subsection \<open>Grouping when no category is an inherited name\<close>

lemma map_of_set_property: "map_of (set_property groups k v) = (map_of groups)(k \<mapsto> v)"
  by (induction groups) auto

lemma keys_set_property:
  "map fst (set_property groups k v) =
     (if k \<in> set (map fst groups) then map fst groups else map fst groups @ [k])"
  by (induction groups) force+

lemma distinct_set_property:
  "distinct (map fst groups) \<Longrightarrow> distinct (map fst (set_property groups k v))"
  by (simp add: keys_set_property)

lemma group_one_own:
  assumes "category m \<notin> set Object_prototype_names"
  shows "\<exists>groups'. group_one groups m = Inr groups' \<and>
           map_of groups' =
             (map_of groups)(category m \<mapsto>
                (case map_of groups (category m) of None \<Rightarrow> [m] | Some items \<Rightarrow> items @ [m])) \<and>
           (distinct (map fst groups) \<longrightarrow> distinct (map fst groups'))"
  using assms
  by (cases "map_of groups (category m)")
    (simp_all add: group_one_def get_property_def map_of_set_property distinct_set_property
      Let_def)

lemma groups_of_step:
  assumes "groups_of groups pre" and "category m \<notin> set Object_prototype_names"
  shows "\<exists>groups'. group_one groups m = Inr groups' \<and> groups_of groups' (pre @ [m])"
proof -
  from group_one_own [OF assms(2), of groups] obtain groups' where
    one: "group_one groups m = Inr groups'"
    and lookup: "map_of groups' =
      (map_of groups)(category m \<mapsto>
         (case map_of groups (category m) of None \<Rightarrow> [m] | Some items \<Rightarrow> items @ [m]))"
    and keys: "distinct (map fst groups) \<longrightarrow> distinct (map fst groups')"
    by blast
  have "map_of groups' k =
      (if k \<in> category ` set (pre @ [m])
       then Some (filter (\<lambda>m. category m = k) (pre @ [m])) else None)" for k
  proof (cases "k = category m")
    case True
    have "filter (\<lambda>x. category x = category m) pre = []" if "category m \<notin> category ` set pre"
      using that by (induction pre) auto
    then show ?thesis
      using assms(1) True by (auto simp: lookup groups_of_def)
  next
    case False
    then show ?thesis
      using assms(1) by (auto simp: lookup groups_of_def)
  qed
  with one keys assms(1) show ?thesis
    by (auto simp: groups_of_def)
qed

lemma forEach_groups_of:
  assumes "groups_of groups pre" and "\<forall>m \<in> set ms. category m \<notin> set Object_prototype_names"
  shows "\<exists>groups'. forEach ms groups = Inr groups' \<and> groups_of groups' (pre @ ms)"
  using assms
proof (induction ms arbitrary: groups pre)
  case Nil
  then show ?case by simp
next
  case (Cons m ms)
  from groups_of_step [OF Cons.prems(1), of m] Cons.prems(2) obtain groups1 where
    one: "group_one groups m = Inr groups1" and inv: "groups_of groups1 (pre @ [m])"
    by auto
  from Cons.IH [OF inv] Cons.prems(2) obtain groups' where
    "forEach ms groups1 = Inr groups'" and "groups_of groups' ((pre @ [m]) @ ms)"
    by auto
  with one show ?case
    by simp
qed

text \<open>
  When no category of the filtered snippets is a name that every object inherits, the
  grouping is a partition: there is one group for each category that occurs, no category
  has two groups, and the group of a category holds the snippets of that category, all
  of them, in their order. So every snippet is in the group of its category and in no
  other.
\<close>

theorem groupedMessages_partition:
  assumes "\<forall>m \<in> set ms. category m \<notin> set Object_prototype_names"
  shows "\<exists>groups. groupedMessages ms = Inr groups \<and>
           distinct (map fst groups) \<and>
           (\<forall>k. map_of groups k =
              (if k \<in> category ` set ms then Some (filter (\<lambda>m. category m = k) ms) else None))"
proof -
  have "groups_of [] []"
    by (simp add: groups_of_def)
  from forEach_groups_of [OF this assms] show ?thesis
    by (simp add: groupedMessages_def groups_of_def)
qed

theorem groupedMessages_partition_witness:
  "\<exists>groups.
     groupedMessages
       [\<lparr>id_of = js ''1'', category = js ''Sales'', title = js ''Greeting'', content = js ''Hello!''\<rparr>,
        \<lparr>id_of = js ''2'', category = js ''Shell'', title = js ''Prompt'', content = js ''$''\<rparr>,
        \<lparr>id_of = js ''3'', category = js ''Sales'', title = js ''Bye'', content = js ''See you''\<rparr>]
       = Inr groups \<and>
     map_of groups (js ''Sales'') =
       Some [\<lparr>id_of = js ''1'', category = js ''Sales'', title = js ''Greeting'', content = js ''Hello!''\<rparr>,
             \<lparr>id_of = js ''3'', category = js ''Sales'', title = js ''Bye'', content = js ''See you''\<rparr>] \<and>
     map_of groups (js ''Shell'') =
       Some [\<lparr>id_of = js ''2'', category = js ''Shell'', title = js ''Prompt'', content = js ''$''\<rparr>] \<and>
     map_of groups (js ''Other'') = None"
  using groupedMessages_partition
    [of "[\<lparr>id_of = js ''1'', category = js ''Sales'', title = js ''Greeting'', content = js ''Hello!''\<rparr>,
          \<lparr>id_of = js ''2'', category = js ''Shell'', title = js ''Prompt'', content = js ''$''\<rparr>,
          \<lparr>id_of = js ''3'', category = js ''Sales'', title = js ''Bye'', content = js ''See you''\<rparr>]"]
  by (auto simp: Object_prototype_names_def js_def ch_def)

subsection \<open>Persistence after a mutation, and an import without rows\<close>

text \<open>
  Whenever a handler has queued an update of the collection, the rendering after it
  leaves the whole new collection in the slot.
\<close>

theorem dispatch_saves_collection:
  assumes "queued (handler w) \<noteq> []"
  shows "localStorage (dispatch handler w) storage_key =
         Some (JSON_stringify (messages (dispatch handler w)))"
  using assms
  by (cases "queued (handler w)") (simp_all add: dispatch_def render_def save_effect_def)

theorem dispatch_saves_collection_witness:
  "localStorage
     (dispatch
        (addOrUpdateSnippet \<lparr>form_category = js ''Sales'', form_title = js ''Bye'', form_content = js ''See you''\<rparr>)
        blank) storage_key
   = Some (JSON_stringify
       [\<lparr>id_of = js ''uuid-'', category = js ''Sales'', title = js ''Bye'', content = js ''See you''\<rparr>])"
  using dispatch_saves_collection
    [of "addOrUpdateSnippet \<lparr>form_category = js ''Sales'', form_title = js ''Bye'', form_content = js ''See you''\<rparr>"
        blank]
  by (simp add: dispatch_def render_def save_effect_def addOrUpdateSnippet_def setMessages_def
      randomUUID_def or_else_def blank_def js_def ch_def)

text \<open>
  An import in which no row after the header has three cells changes nothing: no
  snippet, no write to the storage, the settings stay open.
\<close>

theorem import_without_rows:
  assumes "queued w = []" and "filter (\<lambda>row. 3 \<le> length row) (drop 1 data) = []"
  shows "handleFileUpload (Some data) w = w"
  using assms by (simp add: handleFileUpload_def dispatch_def onload_def render_idle)

theorem import_without_rows_witness:
  "handleFileUpload
     (Some [[CString (js ''Categoria''), CString (js ''Titulo''), CString (js ''Texto'')],
            [CString (js ''Sales''), CString (js ''Greeting'')]]) blank = blank"
  using import_without_rows
    [of blank "[[CString (js ''Categoria''), CString (js ''Titulo''), CString (js ''Texto'')],
                [CString (js ''Sales''), CString (js ''Greeting'')]]"]
  by (simp add: blank_def)

end
